theory Spec2Isabelle
  imports Complex_Main
begin

section \<open>Errors and quantities\<close>

text \<open>
  Every \<^verbatim>\<open>raise\<close> of the Python source is a value of \<open>error\<close>; a function that can
  raise returns \<open>error + 'a\<close> with \<open>Inl\<close> for the exception. The string is the
  message (or, for \<open>NameError\<close> and \<open>AttributeError\<close>, the name that was looked up).
\<close>

datatype error =
    ValueError string
  | UnitsError string
  | TypeError string
  | NameError string
  | AttributeError string
  | IndexError string

definition ebind :: "error + 'a \<Rightarrow> ('a \<Rightarrow> error + 'b) \<Rightarrow> error + 'b" where
  "ebind m f = (case m of Inl e \<Rightarrow> Inl e | Inr v \<Rightarrow> f v)"

text \<open>
  Modelled from the spec: \<^verbatim>\<open>astropy.units\<close> is not part of the sources. A physical type
  is the vector of exponents of three base dimensions (length, angle, time); numbers are
  held in the base unit of their physical type (angles in radians), so that a unit
  conversion between equivalent units is the identity on the stored numbers. NumPy
  floating-point numbers are idealised as real numbers.
\<close>

type_synonym physical_type = "rat \<times> rat \<times> rat"

definition dimensionless :: physical_type where
  "dimensionless = (0, 0, 0)"

definition length_type :: physical_type where
  "length_type = (1, 0, 0)"

definition angle_type :: physical_type where
  "angle_type = (0, 1, 0)"

definition ptype_mul :: "physical_type \<Rightarrow> physical_type \<Rightarrow> physical_type" where
  "ptype_mul p q = (case p of (a, b, c) \<Rightarrow> case q of (a', b', c') \<Rightarrow> (a + a', b + b', c + c'))"

definition ptype_pow :: "physical_type \<Rightarrow> rat \<Rightarrow> physical_type" where
  "ptype_pow p k = (case p of (a, b, c) \<Rightarrow> (a * k, b * k, c * k))"

text \<open>
  A \<^verbatim>\<open>Quantity\<close>: an n-dimensional array (its shape and its numbers in row-major
  order) with a physical type. A scalar has shape \<open>[]\<close> and one number.
\<close>

record quantity =
  shape :: "nat list"
  vals :: "real list"
  ptype :: physical_type

section \<open>NumPy broadcasting\<close>

definition broadcast_dim :: "nat \<Rightarrow> nat \<Rightarrow> nat option" where
  "broadcast_dim a b =
     (if a = b then Some a else if a = 1 then Some b else if b = 1 then Some a else None)"

text \<open>Shapes are aligned at their last axis: the recursion runs over the reversed shapes.\<close>

fun broadcast_rev :: "nat list \<Rightarrow> nat list \<Rightarrow> nat list option" where
  "broadcast_rev [] ys = Some ys"
| "broadcast_rev xs [] = Some xs"
| "broadcast_rev (x # xs) (y # ys) =
     (case broadcast_dim x y of
        None \<Rightarrow> None
      | Some d \<Rightarrow> (case broadcast_rev xs ys of None \<Rightarrow> None | Some ds \<Rightarrow> Some (d # ds)))"

definition broadcast_shapes2 :: "nat list \<Rightarrow> nat list \<Rightarrow> nat list option" where
  "broadcast_shapes2 s t = map_option rev (broadcast_rev (rev s) (rev t))"

fun broadcast_shapes :: "nat list list \<Rightarrow> nat list option" where
  "broadcast_shapes [] = Some []"
| "broadcast_shapes (s # ss) =
     (case broadcast_shapes ss of None \<Rightarrow> None | Some t \<Rightarrow> broadcast_shapes2 s t)"

fun unravel :: "nat list \<Rightarrow> nat \<Rightarrow> nat list" where
  "unravel [] k = []"
| "unravel (d # ds) k = (k div prod_list ds) mod d # unravel ds (k mod prod_list ds)"

fun ravel :: "nat list \<Rightarrow> nat list \<Rightarrow> nat" where
  "ravel (d # ds) (i # is) = i * prod_list ds + ravel ds is"
| "ravel _ _ = 0"

text \<open>
  \<open>broadcast_to t s xs\<close>: the numbers of an array of shape \<open>s\<close> seen at shape \<open>t\<close>;
  an axis of length one is repeated, missing leading axes are added. It is only used
  where \<open>broadcast_shapes\<close> has accepted the shapes.
\<close>

definition broadcast_to :: "nat list \<Rightarrow> nat list \<Rightarrow> real list \<Rightarrow> real list" where
  "broadcast_to t s xs =
     map (\<lambda>k. xs ! ravel s (map2 (\<lambda>d i. if d = 1 then 0 else i) s
                               (drop (length t - length s) (unravel t k))))
         [0 ..< prod_list t]"

text \<open>
  \<^verbatim>\<open>broadcast_quantity(*args)\<close>: \<^verbatim>\<open>np.broadcast_arrays\<close> raises \<open>ValueError\<close> when
  the shapes do not fit; each result keeps the unit and the class of its argument.
  Building a longitude from a longitude, or a latitude from a latitude, changes no
  number, so the class is not part of the model.
\<close>

definition broadcast_as :: "nat list \<Rightarrow> quantity \<Rightarrow> quantity" where
  "broadcast_as s q = \<lparr>shape = s, vals = broadcast_to s (shape q) (vals q), ptype = ptype q\<rparr>"

definition broadcast_quantity :: "quantity list \<Rightarrow> error + quantity list" where
  "broadcast_quantity args =
     (case broadcast_shapes (map shape args) of
        None \<Rightarrow> Inl (ValueError ''shape mismatch: objects cannot be broadcast to a single shape'')
      | Some s \<Rightarrow> Inr (map (broadcast_as s) args))"

section \<open>Constructor arguments\<close>

text \<open>
  What a caller can pass for a component: a bare number or array (\<open>Num\<close>, no unit), a
  \<^verbatim>\<open>Quantity\<close> (\<open>Qty\<close>), or a Python tuple or list of such values (\<open>Tup\<close>). An
  omitted keyword argument (\<^verbatim>\<open>None\<close>) is \<open>None\<close> of an option type.
\<close>

datatype component =
    Num "nat list" "real list"
  | Qty quantity

datatype arg =
    Arr component
  | Tup "component list"

definition comp_shape :: "component \<Rightarrow> nat list" where
  "comp_shape c = (case c of Num s v \<Rightarrow> s | Qty q \<Rightarrow> shape q)"

definition comp_vals :: "component \<Rightarrow> real list" where
  "comp_vals c = (case c of Num s v \<Rightarrow> v | Qty q \<Rightarrow> vals q)"

text \<open>
  \<^verbatim>\<open>u.Quantity(value, unit=unit)\<close> on one component: a bare number takes the unit (or is
  dimensionless), a quantity is converted to the unit, which fails with \<open>UnitsError\<close>
  when the physical types differ.
\<close>

definition Quantity_of :: "component \<Rightarrow> physical_type option \<Rightarrow> error + quantity" where
  "Quantity_of c unit =
     (case c of
        Num s v \<Rightarrow>
          Inr \<lparr>shape = s, vals = v,
               ptype = (case unit of None \<Rightarrow> dimensionless | Some p \<Rightarrow> p)\<rparr>
      | Qty q \<Rightarrow>
          (case unit of
             None \<Rightarrow> Inr q
           | Some p \<Rightarrow>
               if ptype q = p then Inr q
               else Inl (UnitsError ''units are not convertible'')))"

text \<open>
  \<^verbatim>\<open>u.Quantity\<close> on a tuple stacks its members along a new first axis. Bare numbers
  must have one shape. Quantities are first brought to the unit of the first of them,
  which fails with \<open>UnitsError\<close> when the physical types differ, and must then have one
  shape. A tuple that mixes quantities and bare numbers is handed to \<^verbatim>\<open>np.array\<close>,
  which cannot turn a quantity with a unit into a number and raises \<open>TypeError\<close>.
\<close>

definition is_Num :: "component \<Rightarrow> bool" where
  "is_Num c = (case c of Num s v \<Rightarrow> True | Qty q \<Rightarrow> False)"

definition stack_components :: "component list \<Rightarrow> error + component" where
  "stack_components cs =
     (case cs of
        [] \<Rightarrow> Inr (Num [0] [])
      | c # rest \<Rightarrow>
          if list_all is_Num cs
          then (if list_all (\<lambda>d. comp_shape d = comp_shape c) rest
                then Inr (Num (length cs # comp_shape c) (concat (map comp_vals cs)))
                else Inl (ValueError ''setting an array element with a sequence''))
          else if list_all (\<lambda>d. \<not> is_Num d) cs
          then (case c of
                  Num s v \<Rightarrow> Inl (TypeError ''only dimensionless scalar quantities can be converted to Python scalars'')
                | Qty q \<Rightarrow>
                    if \<not> list_all (\<lambda>d. case d of Num s v \<Rightarrow> False
                                              | Qty r \<Rightarrow> ptype r = ptype q) rest
                    then Inl (UnitsError ''units are not convertible'')
                    else if \<not> list_all (\<lambda>d. comp_shape d = comp_shape c) rest
                    then Inl (ValueError ''setting an array element with a sequence'')
                    else Inr (Qty \<lparr>shape = length cs # shape q,
                                   vals = concat (map comp_vals cs), ptype = ptype q\<rparr>))
          else Inl (TypeError ''only dimensionless scalar quantities can be converted to Python scalars''))"

definition Quantity_arg :: "arg \<Rightarrow> physical_type option \<Rightarrow> error + quantity" where
  "Quantity_arg a unit =
     (case a of
        Arr c \<Rightarrow> Quantity_of c unit
      | Tup cs \<Rightarrow> ebind (stack_components cs) (\<lambda>c. Quantity_of c unit))"

text \<open>
  \<^verbatim>\<open>x, y, z = x\<close>: a tuple must have exactly three members; an array is iterated along
  its first axis, which must have length three, and a scalar cannot be iterated.
\<close>

definition chunk :: "nat \<Rightarrow> nat \<Rightarrow> real list \<Rightarrow> real list" where
  "chunk n i xs = take n (drop (i * n) xs)"

definition sub_array :: "component \<Rightarrow> nat \<Rightarrow> component" where
  "sub_array c i =
     (case c of
        Num s v \<Rightarrow> Num (tl s) (chunk (prod_list (tl s)) i v)
      | Qty q \<Rightarrow> Qty \<lparr>shape = tl (shape q),
                      vals = chunk (prod_list (tl (shape q))) i (vals q), ptype = ptype q\<rparr>)"

definition unpack3 :: "arg \<Rightarrow> error + (component \<times> component \<times> component)" where
  "unpack3 a =
     (case a of
        Tup cs \<Rightarrow>
          (case cs of
             [c1, c2, c3] \<Rightarrow> Inr (c1, c2, c3)
           | _ \<Rightarrow> Inl (ValueError ''wrong number of values to unpack''))
      | Arr c \<Rightarrow>
          (case comp_shape c of
             [] \<Rightarrow> Inl (TypeError ''iteration over a 0-d array'')
           | n # s \<Rightarrow>
               if n = 3 then Inr (sub_array c 0, sub_array c 1, sub_array c 2)
               else Inl (ValueError ''wrong number of values to unpack'')))"

section \<open>CartesianRepresentation\<close>

record cartesian =
  c_x :: quantity
  c_y :: quantity
  c_z :: quantity

text \<open>
  \<^verbatim>\<open>CartesianRepresentation.__init__(x, y=None, z=None, unit=None, copy=True)\<close>. The
  \<^verbatim>\<open>copy\<close> flag only chooses between copying and sharing the arrays and has no effect
  on immutable values, so it is not a parameter of the model.
\<close>

definition Cartesian_args ::
  "arg \<Rightarrow> component option \<Rightarrow> component option \<Rightarrow> error + (arg \<times> component \<times> component)" where
  "Cartesian_args x y z =
     (case (y, z) of
        (None, None) \<Rightarrow> ebind (unpack3 x) (\<lambda>(a, b, c). Inr (Arr a, b, c))
      | (None, Some c) \<Rightarrow>
          Inl (ValueError ''x, y, and z are required to instantiate CartesianRepresentation'')
      | (Some b, None) \<Rightarrow>
          Inl (ValueError ''x, y, and z are required to instantiate CartesianRepresentation'')
      | (Some b, Some c) \<Rightarrow> Inr (x, b, c))"

definition CartesianRepresentation_init ::
  "arg \<Rightarrow> component option \<Rightarrow> component option \<Rightarrow> physical_type option \<Rightarrow> error + cartesian" where
  "CartesianRepresentation_init x y z unit =
     ebind (Cartesian_args x y z) (\<lambda>(x1, y1, z1).
     ebind (Quantity_arg x1 unit) (\<lambda>xq.
     ebind (Quantity_of y1 unit) (\<lambda>yq.
     ebind (Quantity_of z1 unit) (\<lambda>zq.
       if \<not> (ptype xq = ptype yq \<and> ptype yq = ptype zq)
       then Inl (UnitsError ''x, y, and z should have matching physical types'')
       else (case broadcast_quantity [xq, yq, zq] of
               Inr [xb, yb, zb] \<Rightarrow> Inr \<lparr>c_x = xb, c_y = yb, c_z = zb\<rparr>
             | _ \<Rightarrow> Inl (ValueError ''Input parameters x, y, and z cannot be broadcast''))))))"

section \<open>Angles and distances\<close>

text \<open>
  Modelled from the spec: the classes \<^verbatim>\<open>Angle\<close>, \<^verbatim>\<open>Longitude\<close>, \<^verbatim>\<open>Latitude\<close>
  (\<^verbatim>\<open>angles.py\<close>) and \<^verbatim>\<open>Distance\<close> (\<^verbatim>\<open>distances.py\<close>) are not part of the sources.
  An angle needs an angular unit; a longitude is a wraparound angle, kept in
  \<open>[0, 2\<pi>)\<close>; a latitude is bounded to \<open>\<plusminus>\<pi>/2\<close> and anything else is refused; a
  distance may carry a sign, so \<^verbatim>\<open>Distance\<close> keeps the numbers as they are.
\<close>

definition wrap_angle :: "real \<Rightarrow> real" where
  "wrap_angle a = a - 2 * pi * of_int \<lfloor>a / (2 * pi)\<rfloor>"

definition Angle :: "component \<Rightarrow> error + quantity" where
  "Angle c =
     (case c of
        Num s v \<Rightarrow> Inl (UnitsError ''No unit was specified'')
      | Qty q \<Rightarrow>
          if ptype q = angle_type then Inr q
          else Inl (UnitsError ''Given unit is not convertible to an angle''))"

definition Longitude :: "component \<Rightarrow> error + quantity" where
  "Longitude c = ebind (Angle c) (\<lambda>q. Inr (q\<lparr>vals := map wrap_angle (vals q)\<rparr>))"

definition Latitude :: "component \<Rightarrow> error + quantity" where
  "Latitude c =
     ebind (Angle c) (\<lambda>q.
       if list_all (\<lambda>v. - (pi / 2) \<le> v \<and> v \<le> pi / 2) (vals q) then Inr q
       else Inl (ValueError ''Latitude angle(s) must be within -90 deg <= angle <= 90 deg''))"

definition Distance :: "quantity \<Rightarrow> error + quantity" where
  "Distance q = Inr q"

text \<open>
  The distance argument of the spherical constructors: a quantity of physical type
  length goes to \<^verbatim>\<open>Distance\<close>, anything else to \<^verbatim>\<open>u.Quantity\<close>.
\<close>

definition distance_arg :: "component \<Rightarrow> error + quantity" where
  "distance_arg c =
     (case c of
        Qty q \<Rightarrow> if ptype q = length_type then Distance q else Quantity_of c None
      | Num s v \<Rightarrow> Quantity_of c None)"

section \<open>Element-wise arithmetic on quantities\<close>

text \<open>
  NumPy arithmetic broadcasts its operands and raises \<open>ValueError\<close> when it cannot;
  \<^verbatim>\<open>astropy.units\<close> refuses to add or compare incompatible units and to take the
  sine or cosine of anything but an angle.
\<close>

definition elementwise2 ::
  "(real \<Rightarrow> real \<Rightarrow> real) \<Rightarrow> physical_type \<Rightarrow> quantity \<Rightarrow> quantity \<Rightarrow> error + quantity" where
  "elementwise2 f p a b =
     (case broadcast_shapes2 (shape a) (shape b) of
        None \<Rightarrow> Inl (ValueError ''operands could not be broadcast together'')
      | Some s \<Rightarrow>
          Inr \<lparr>shape = s,
               vals = map2 f (broadcast_to s (shape a) (vals a)) (broadcast_to s (shape b) (vals b)),
               ptype = p\<rparr>)"

definition q_mul :: "quantity \<Rightarrow> quantity \<Rightarrow> error + quantity" where
  "q_mul a b = elementwise2 (*) (ptype_mul (ptype a) (ptype b)) a b"

definition q_add :: "quantity \<Rightarrow> quantity \<Rightarrow> error + quantity" where
  "q_add a b =
     (if ptype a \<noteq> ptype b then Inl (UnitsError ''units are not convertible'')
      else elementwise2 (+) (ptype a) a b)"

definition q_sub :: "quantity \<Rightarrow> quantity \<Rightarrow> error + quantity" where
  "q_sub a b =
     (if ptype a \<noteq> ptype b then Inl (UnitsError ''units are not convertible'')
      else elementwise2 (-) (ptype a) a b)"

definition q_square :: "quantity \<Rightarrow> quantity" where
  "q_square a = a\<lparr>vals := map (\<lambda>v. v * v) (vals a), ptype := ptype_pow (ptype a) 2\<rparr>"

definition q_sqrt :: "quantity \<Rightarrow> quantity" where
  "q_sqrt a = a\<lparr>vals := map sqrt (vals a), ptype := ptype_pow (ptype a) (1 / 2)\<rparr>"

definition np_cos :: "quantity \<Rightarrow> error + quantity" where
  "np_cos a =
     (if ptype a \<noteq> angle_type
      then Inl (TypeError ''Can only apply cos function to quantities with angle units'')
      else Inr (a\<lparr>vals := map cos (vals a), ptype := dimensionless\<rparr>))"

definition np_sin :: "quantity \<Rightarrow> error + quantity" where
  "np_sin a =
     (if ptype a \<noteq> angle_type
      then Inl (TypeError ''Can only apply sin function to quantities with angle units'')
      else Inr (a\<lparr>vals := map sin (vals a), ptype := dimensionless\<rparr>))"

text \<open>
  \<^verbatim>\<open>np.arctan2(y, x)\<close> on real numbers: the angle of the point \<open>(x, y)\<close> in
  \<open>(-\<pi>, \<pi>]\<close>, and \<open>0\<close> at the origin. (The sign of a floating-point zero is not
  modelled.)
\<close>

definition arctan2 :: "real \<Rightarrow> real \<Rightarrow> real" where
  "arctan2 y x =
     (if 0 < x then arctan (y / x)
      else if x < 0 then (if 0 \<le> y then arctan (y / x) + pi else arctan (y / x) - pi)
      else if 0 < y then pi / 2
      else if y < 0 then - (pi / 2)
      else 0)"

definition np_arctan2 :: "quantity \<Rightarrow> quantity \<Rightarrow> error + quantity" where
  "np_arctan2 a b =
     (if ptype a \<noteq> ptype b then Inl (UnitsError ''units are not convertible'')
      else elementwise2 arctan2 angle_type a b)"

text \<open>\<^verbatim>\<open>u.one * q\<close> and \<^verbatim>\<open>90 * u.deg\<close>.\<close>

definition unit_mul :: "physical_type \<Rightarrow> quantity \<Rightarrow> quantity" where
  "unit_mul p q = q\<lparr>ptype := ptype_mul p (ptype q)\<rparr>"

definition ninety_deg :: quantity where
  "ninety_deg = \<lparr>shape = [], vals = [pi / 2], ptype = angle_type\<rparr>"

section \<open>The spherical and cylindrical representations\<close>

record spherical =
  s_lon :: quantity
  s_lat :: quantity
  s_distance :: quantity

record unit_spherical =
  u_lon :: quantity
  u_lat :: quantity

record physics_spherical =
  p_phi :: quantity
  p_theta :: quantity
  p_distance :: quantity

record cylindrical =
  cyl_rho :: quantity
  cyl_phi :: quantity
  cyl_z :: quantity

definition SphericalRepresentation_init ::
  "component \<Rightarrow> component \<Rightarrow> component \<Rightarrow> error + spherical" where
  "SphericalRepresentation_init lon lat distance =
     ebind (Longitude lon) (\<lambda>lon1.
     ebind (Latitude lat) (\<lambda>lat1.
     ebind (distance_arg distance) (\<lambda>d1.
       (case broadcast_quantity [lon1, lat1, d1] of
          Inr [a, b, c] \<Rightarrow> Inr \<lparr>s_lon = a, s_lat = b, s_distance = c\<rparr>
        | _ \<Rightarrow> Inl (ValueError ''Input parameters lon, lat, and distance cannot be broadcast'')))))"

definition UnitSphericalRepresentation_init ::
  "component \<Rightarrow> component \<Rightarrow> error + unit_spherical" where
  "UnitSphericalRepresentation_init lon lat =
     ebind (Longitude lon) (\<lambda>lon1.
     ebind (Latitude lat) (\<lambda>lat1.
       (case broadcast_quantity [lon1, lat1] of
          Inr [a, b] \<Rightarrow> Inr \<lparr>u_lon = a, u_lat = b\<rparr>
        | _ \<Rightarrow> Inl (ValueError ''Input parameters lon and lat cannot be broadcast''))))"

definition PhysicsSphericalRepresentation_init ::
  "component \<Rightarrow> component \<Rightarrow> component \<Rightarrow> error + physics_spherical" where
  "PhysicsSphericalRepresentation_init phi theta distance =
     ebind (Angle phi) (\<lambda>phi1.
     ebind (Angle theta) (\<lambda>theta1.
     ebind (distance_arg distance) (\<lambda>d1.
       (case broadcast_quantity [phi1, theta1, d1] of
          Inr [a, b, c] \<Rightarrow> Inr \<lparr>p_phi = a, p_theta = b, p_distance = c\<rparr>
        | _ \<Rightarrow> Inl (ValueError ''Input parameters phi, theta, and distance cannot be broadcast'')))))"

definition CylindricalRepresentation_init ::
  "component \<Rightarrow> component \<Rightarrow> component \<Rightarrow> error + cylindrical" where
  "CylindricalRepresentation_init rho phi z =
     ebind (Quantity_of rho None) (\<lambda>rho1.
     ebind (Angle phi) (\<lambda>phi1.
     ebind (Quantity_of z None) (\<lambda>z1.
       if \<not> (ptype rho1 = ptype z1)
       then Inl (UnitsError ''rho and z should have matching physical types'')
       else (case broadcast_quantity [rho1, phi1, z1] of
               Inr [a, b, c] \<Rightarrow> Inr \<lparr>cyl_rho = a, cyl_phi = b, cyl_z = c\<rparr>
             | _ \<Rightarrow> Inl (ValueError ''Input parameters rho, phi, and z cannot be broadcast'')))))"

text \<open>The keyword call \<^verbatim>\<open>CartesianRepresentation(x=x, y=y, z=z)\<close> of the conversions.\<close>

definition Cartesian_xyz :: "quantity \<Rightarrow> quantity \<Rightarrow> quantity \<Rightarrow> error + cartesian" where
  "Cartesian_xyz x y z = CartesianRepresentation_init (Arr (Qty x)) (Some (Qty y)) (Some (Qty z)) None"

text \<open>
  The conversions. Viewing a \<^verbatim>\<open>Distance\<close> as a \<^verbatim>\<open>Quantity\<close> (lines 235-238 and
  427-430) changes no number either, so \<open>d\<close> is the distance as it is stored. The
  operations are taken in the order in which Python evaluates them.
\<close>

definition Spherical_to_cartesian :: "spherical \<Rightarrow> error + cartesian" where
  "Spherical_to_cartesian self =
     (let d = s_distance self in
      ebind (np_cos (s_lat self)) (\<lambda>c1. ebind (q_mul d c1) (\<lambda>dc1.
      ebind (np_cos (s_lon self)) (\<lambda>c2. ebind (q_mul dc1 c2) (\<lambda>x.
      ebind (np_cos (s_lat self)) (\<lambda>c3. ebind (q_mul d c3) (\<lambda>dc3.
      ebind (np_sin (s_lon self)) (\<lambda>s4. ebind (q_mul dc3 s4) (\<lambda>y.
      ebind (np_sin (s_lat self)) (\<lambda>s5. ebind (q_mul d s5) (\<lambda>z.
        Cartesian_xyz x y z)))))))))))"

definition Spherical_from_cartesian :: "cartesian \<Rightarrow> error + spherical" where
  "Spherical_from_cartesian cart =
     (let xsq = q_square (c_x cart); ysq = q_square (c_y cart); zsq = q_square (c_z cart) in
      ebind (q_add xsq ysq) (\<lambda>xy. ebind (q_add xy zsq) (\<lambda>xyz.
      let r = q_sqrt xyz in
      ebind (q_add xsq ysq) (\<lambda>xy2.
      let s = q_sqrt xy2 in
      ebind (np_arctan2 (c_y cart) (c_x cart)) (\<lambda>lon.
      ebind (np_arctan2 (c_z cart) s) (\<lambda>lat.
        SphericalRepresentation_init (Qty lon) (Qty lat) (Qty r)))))))"

definition UnitSpherical_to_cartesian :: "unit_spherical \<Rightarrow> error + cartesian" where
  "UnitSpherical_to_cartesian self =
     ebind (np_cos (u_lat self)) (\<lambda>c1.
     ebind (np_cos (u_lon self)) (\<lambda>c2. ebind (q_mul (unit_mul dimensionless c1) c2) (\<lambda>x.
     ebind (np_cos (u_lat self)) (\<lambda>c3.
     ebind (np_sin (u_lon self)) (\<lambda>s4. ebind (q_mul (unit_mul dimensionless c3) s4) (\<lambda>y.
     ebind (np_sin (u_lat self)) (\<lambda>s5.
       Cartesian_xyz x y (unit_mul dimensionless s5))))))))"

definition UnitSpherical_from_cartesian :: "cartesian \<Rightarrow> error + unit_spherical" where
  "UnitSpherical_from_cartesian cart =
     (let xsq = q_square (c_x cart); ysq = q_square (c_y cart); zsq = q_square (c_z cart) in
      ebind (q_add xsq ysq) (\<lambda>xy.
      let s = q_sqrt xy in
      ebind (np_arctan2 (c_y cart) (c_x cart)) (\<lambda>lon.
      ebind (np_arctan2 (c_z cart) s) (\<lambda>lat.
        UnitSphericalRepresentation_init (Qty lon) (Qty lat)))))"

definition PhysicsSpherical_to_cartesian :: "physics_spherical \<Rightarrow> error + cartesian" where
  "PhysicsSpherical_to_cartesian self =
     (let d = p_distance self in
      ebind (np_sin (p_theta self)) (\<lambda>s1. ebind (q_mul d s1) (\<lambda>ds1.
      ebind (np_cos (p_phi self)) (\<lambda>c2. ebind (q_mul ds1 c2) (\<lambda>x.
      ebind (np_sin (p_theta self)) (\<lambda>s3. ebind (q_mul d s3) (\<lambda>ds3.
      ebind (np_sin (p_phi self)) (\<lambda>s4. ebind (q_mul ds3 s4) (\<lambda>y.
      ebind (np_cos (p_theta self)) (\<lambda>c5. ebind (q_mul d c5) (\<lambda>z.
        Cartesian_xyz x y z)))))))))))"

definition PhysicsSpherical_from_cartesian :: "cartesian \<Rightarrow> error + physics_spherical" where
  "PhysicsSpherical_from_cartesian cart =
     (let xsq = q_square (c_x cart); ysq = q_square (c_y cart); zsq = q_square (c_z cart) in
      ebind (q_add xsq ysq) (\<lambda>xy. ebind (q_add xy zsq) (\<lambda>xyz.
      let r = q_sqrt xyz in
      ebind (q_add xsq ysq) (\<lambda>xy2.
      let s = q_sqrt xy2 in
      ebind (np_arctan2 (c_y cart) (c_x cart)) (\<lambda>phi.
      ebind (np_arctan2 s (c_z cart)) (\<lambda>theta.
        PhysicsSphericalRepresentation_init (Qty phi) (Qty theta) (Qty r)))))))"

text \<open>
  \<^verbatim>\<open>phi[rho > 0] = values\<close>, NumPy's assignment through a boolean mask: the mask must
  have the shape of the array; the values may have at most one axis; a scalar value, or
  an array holding a single value, is written at every selected place, and any other
  array of values must hold exactly as many values as the mask selects, which are then
  written in order.
\<close>

definition q_gt0 :: "quantity \<Rightarrow> nat list \<times> bool list" where
  "q_gt0 a = (shape a, map (\<lambda>v. 0 < v) (vals a))"

fun put_mask :: "real list \<Rightarrow> bool list \<Rightarrow> real list \<Rightarrow> real list" where
  "put_mask (a # as) (m # ms) (v # vs) =
     (if m then v # put_mask as ms vs else a # put_mask as ms (v # vs))"
| "put_mask as ms vs = as"

definition setitem_mask :: "quantity \<Rightarrow> nat list \<times> bool list \<Rightarrow> quantity \<Rightarrow> error + quantity" where
  "setitem_mask a index v =
     (case index of (ms, bs) \<Rightarrow>
        if ptype v \<noteq> ptype a then Inl (UnitsError ''units are not convertible'')
        else if ms \<noteq> shape a
        then Inl (IndexError ''boolean index did not match indexed array'')
        else if 1 < length (shape v)
        then Inl (TypeError ''boolean array indexing assignment requires a 0 or 1-dimensional input'')
        else if shape v = [] \<or> shape v = [1]
        then Inr (a\<lparr>vals := map2 (\<lambda>x b. if b then hd (vals v) else x) (vals a) bs\<rparr>)
        else if hd (shape v) \<noteq> length (filter id bs)
        then Inl (ValueError ''boolean array indexing assignment cannot assign the input values to the output values where the mask is true'')
        else Inr (a\<lparr>vals := put_mask (vals a) bs (vals v)\<rparr>))"

definition np_zeros :: "nat list \<Rightarrow> physical_type \<Rightarrow> quantity" where
  "np_zeros s p = \<lparr>shape = s, vals = replicate (prod_list s) 0, ptype = p\<rparr>"

definition Cylindrical_from_cartesian :: "cartesian \<Rightarrow> error + cylindrical" where
  "Cylindrical_from_cartesian cart =
     ebind (q_add (q_square (c_x cart)) (q_square (c_y cart))) (\<lambda>xy.
     let rho = q_sqrt xy;
         phi0 = np_zeros (shape (c_x cart)) angle_type in
     ebind (np_arctan2 (c_y cart) (c_x cart)) (\<lambda>values.
     ebind (setitem_mask phi0 (q_gt0 rho) values) (\<lambda>phi.
     let z = c_z cart in
       CylindricalRepresentation_init (Qty rho) (Qty phi) (Qty z))))"

definition Cylindrical_to_cartesian :: "cylindrical \<Rightarrow> error + cartesian" where
  "Cylindrical_to_cartesian self =
     ebind (np_cos (cyl_phi self)) (\<lambda>c1. ebind (q_mul (cyl_rho self) c1) (\<lambda>x.
     ebind (np_sin (cyl_phi self)) (\<lambda>s2. ebind (q_mul (cyl_rho self) s2) (\<lambda>y.
       Cartesian_xyz x y (cyl_z self)))))"

section \<open>The representation hierarchy and \<^verbatim>\<open>represent_as\<close>\<close>

datatype rep_class =
    CartesianRepresentation
  | SphericalRepresentation
  | UnitSphericalRepresentation
  | PhysicsSphericalRepresentation
  | CylindricalRepresentation

datatype representation =
    Cartesian cartesian
  | Spherical spherical
  | UnitSpherical unit_spherical
  | PhysicsSpherical physics_spherical
  | Cylindrical cylindrical

definition class_of :: "representation \<Rightarrow> rep_class" where
  "class_of r =
     (case r of
        Cartesian c \<Rightarrow> CartesianRepresentation
      | Spherical s \<Rightarrow> SphericalRepresentation
      | UnitSpherical u \<Rightarrow> UnitSphericalRepresentation
      | PhysicsSpherical p \<Rightarrow> PhysicsSphericalRepresentation
      | Cylindrical c \<Rightarrow> CylindricalRepresentation)"

definition to_cartesian :: "representation \<Rightarrow> error + cartesian" where
  "to_cartesian r =
     (case r of
        Cartesian c \<Rightarrow> Inr c
      | Spherical s \<Rightarrow> Spherical_to_cartesian s
      | UnitSpherical u \<Rightarrow> UnitSpherical_to_cartesian u
      | PhysicsSpherical p \<Rightarrow> PhysicsSpherical_to_cartesian p
      | Cylindrical c \<Rightarrow> Cylindrical_to_cartesian c)"

definition from_cartesian :: "rep_class \<Rightarrow> cartesian \<Rightarrow> error + representation" where
  "from_cartesian cls cart =
     (case cls of
        CartesianRepresentation \<Rightarrow> Inr (Cartesian cart)
      | SphericalRepresentation \<Rightarrow> map_sum id Spherical (Spherical_from_cartesian cart)
      | UnitSphericalRepresentation \<Rightarrow> map_sum id UnitSpherical (UnitSpherical_from_cartesian cart)
      | PhysicsSphericalRepresentation \<Rightarrow>
          map_sum id PhysicsSpherical (PhysicsSpherical_from_cartesian cart)
      | CylindricalRepresentation \<Rightarrow> map_sum id Cylindrical (Cylindrical_from_cartesian cart))"

definition BaseRepresentation_represent_as ::
  "representation \<Rightarrow> rep_class \<Rightarrow> error + representation" where
  "BaseRepresentation_represent_as self other_class =
     (if other_class = class_of self then Inr self
      else ebind (to_cartesian self) (from_cartesian other_class))"

definition Spherical_represent_as :: "spherical \<Rightarrow> rep_class \<Rightarrow> error + representation" where
  "Spherical_represent_as self other_class =
     (if other_class = PhysicsSphericalRepresentation
      then ebind (q_sub ninety_deg (s_lat self)) (\<lambda>theta.
             map_sum id PhysicsSpherical
               (PhysicsSphericalRepresentation_init (Qty (s_lon self)) (Qty theta)
                  (Qty (s_distance self))))
      else BaseRepresentation_represent_as (Spherical self) other_class)"

definition PhysicsSpherical_represent_as ::
  "physics_spherical \<Rightarrow> rep_class \<Rightarrow> error + representation" where
  "PhysicsSpherical_represent_as self other_class =
     (if other_class = SphericalRepresentation
      then ebind (q_sub ninety_deg (p_theta self)) (\<lambda>lat.
             map_sum id Spherical
               (SphericalRepresentation_init (Qty (p_phi self)) (Qty lat)
                  (Qty (p_distance self))))
      else BaseRepresentation_represent_as (PhysicsSpherical self) other_class)"

text \<open>Method dispatch: the two spherical classes override \<^verbatim>\<open>represent_as\<close>.\<close>

definition represent_as :: "representation \<Rightarrow> rep_class \<Rightarrow> error + representation" where
  "represent_as self other_class =
     (case self of
        Spherical s \<Rightarrow> Spherical_represent_as s other_class
      | PhysicsSpherical p \<Rightarrow> PhysicsSpherical_represent_as p other_class
      | _ \<Rightarrow> BaseRepresentation_represent_as self other_class)"

section \<open>Frames\<close>

text \<open>
  Modelled from the spec: \<^verbatim>\<open>astropy.time.Time\<close> is not part of the sources. An
  observation time is an array of instants (a scalar time holds one), each a two-part
  Julian date, with the UT1-UTC offset of each instant. \<^verbatim>\<open>!=\<close> compares instants
  element by element, a scalar against every element of an array.
\<close>

record time =
  jd1 :: "real list"
  jd2 :: "real list"
  delta_ut1_utc :: "real list"

definition instants :: "time \<Rightarrow> real list" where
  "instants t = map2 (+) (jd1 t) (jd2 t)"

definition time_ne :: "time \<Rightarrow> time \<Rightarrow> error + bool list" where
  "time_ne a b =
     (let xs = instants a; ys = instants b in
      if length xs = length ys then Inr (map2 (\<lambda>x y. x \<noteq> y) xs ys)
      else if length xs = 1 then Inr (map (\<lambda>y. hd xs \<noteq> y) ys)
      else if length ys = 1 then Inr (map (\<lambda>x. x \<noteq> hd ys) xs)
      else Inl (ValueError ''operands could not be broadcast together''))"

definition np_all :: "bool list \<Rightarrow> bool" where
  "np_all bs = list_all id bs"

text \<open>
  Modelled from the spec: the frame classes \<^verbatim>\<open>CIRS\<close> and \<^verbatim>\<open>AltAz\<close> and the base
  class of frames (\<^verbatim>\<open>cirs.py\<close>, \<^verbatim>\<open>altaz.py\<close>, \<^verbatim>\<open>baseframe.py\<close>) are not part of the
  sources. A frame is its type with the attributes of that type, and zero or one
  representation. CIRS and ITRS carry an observation time; AltAz carries observation
  time, observer location (absent by default) and the four atmospheric parameters.
\<close>

record earth_location =
  geodetic_lon :: real
  geodetic_lat :: real
  geodetic_height :: real

record altaz_attributes =
  aa_obstime :: time
  aa_location :: "earth_location option"
  aa_pressure :: real
  aa_temperature :: real
  aa_relative_humidity :: real
  aa_obswl :: real

datatype frame_attributes =
    ICRS
  | GCRS
  | CIRS time
  | ITRS time
  | AltAz altaz_attributes

record frame =
  attributes :: frame_attributes
  data :: "representation option"

definition get_obstime :: "frame \<Rightarrow> error + time" where
  "get_obstime f =
     (case attributes f of
        CIRS t \<Rightarrow> Inr t
      | ITRS t \<Rightarrow> Inr t
      | AltAz a \<Rightarrow> Inr (aa_obstime a)
      | _ \<Rightarrow> Inl (AttributeError ''obstime''))"

definition get_altaz :: "frame \<Rightarrow> error + altaz_attributes" where
  "get_altaz f =
     (case attributes f of
        AltAz a \<Rightarrow> Inr a
      | _ \<Rightarrow> Inl (AttributeError ''pressure''))"

text \<open>\<^verbatim>\<open>frame.location.geodetic\<close>; the location of an AltAz frame may be \<^verbatim>\<open>None\<close>.\<close>

definition get_geodetic :: "frame \<Rightarrow> error + earth_location" where
  "get_geodetic f =
     (case attributes f of
        AltAz a \<Rightarrow>
          (case aa_location a of
             None \<Rightarrow> Inl (AttributeError ''geodetic'')
           | Some l \<Rightarrow> Inr l)
      | _ \<Rightarrow> Inl (AttributeError ''location''))"

text \<open>
  The longitude-like and latitude-like components of a frame's data, which the frames
  expose as \<^verbatim>\<open>ra\<close>/\<^verbatim>\<open>dec\<close> (CIRS) and \<^verbatim>\<open>az\<close>/\<^verbatim>\<open>alt\<close> (AltAz): only the
  names differ, the numbers are those of the representation.
\<close>

definition frame_lon :: "frame \<Rightarrow> error + quantity" where
  "frame_lon f =
     (case data f of
        None \<Rightarrow> Inl (ValueError ''The frame object does not have associated data'')
      | Some r \<Rightarrow>
          (case r of
             Spherical s \<Rightarrow> Inr (s_lon s)
           | _ \<Rightarrow>
               ebind (represent_as r UnitSphericalRepresentation) (\<lambda>r'.
                 case r' of
                   UnitSpherical u \<Rightarrow> Inr (u_lon u)
                 | _ \<Rightarrow> Inl (TypeError ''not a spherical representation''))))"

definition frame_lat :: "frame \<Rightarrow> error + quantity" where
  "frame_lat f =
     (case data f of
        None \<Rightarrow> Inl (ValueError ''The frame object does not have associated data'')
      | Some r \<Rightarrow>
          (case r of
             Spherical s \<Rightarrow> Inr (s_lat s)
           | _ \<Rightarrow>
               ebind (represent_as r UnitSphericalRepresentation) (\<lambda>r'.
                 case r' of
                   UnitSpherical u \<Rightarrow> Inr (u_lat u)
                 | _ \<Rightarrow> Inl (TypeError ''not a spherical representation''))))"

definition realize_frame :: "frame \<Rightarrow> representation \<Rightarrow> frame" where
  "realize_frame f rep = f\<lparr>data := Some rep\<rparr>"

text \<open>\<^verbatim>\<open>CIRS(obstime=t)\<close> and \<^verbatim>\<open>CIRS(ra=ra, dec=dec, obstime=t)\<close>.\<close>

definition CIRS_frame :: "time \<Rightarrow> frame" where
  "CIRS_frame t = \<lparr>attributes = CIRS t, data = None\<rparr>"

definition CIRS_init :: "component \<Rightarrow> component \<Rightarrow> time \<Rightarrow> error + frame" where
  "CIRS_init ra dec t =
     ebind (UnitSphericalRepresentation_init ra dec) (\<lambda>rep.
       Inr \<lparr>attributes = CIRS t, data = Some (UnitSpherical rep)\<rparr>)"

section \<open>The CIRS and AltAz transformations\<close>

text \<open>
  The external collaborators, taken as parameters: the polar-motion lookup
  (\<^verbatim>\<open>iers.IERS.open().pm_xy\<close>, here already in radians), and the ERFA routines
  \<^verbatim>\<open>apio13\<close> (astrometry context), \<^verbatim>\<open>atioq\<close> (observe) and \<^verbatim>\<open>atoiq\<close> (unobserve).
  \<open>'a\<close> is the type of the astrometry context. Arrays passed to ERFA are a shape with
  its numbers.
\<close>

type_synonym ndarray = "nat list \<times> real list"

record 'a externals =
  pm_xy :: "real list \<Rightarrow> real list \<Rightarrow> real list \<times> real list"
  apio13 :: "real list \<times> real list \<times> real \<Rightarrow> earth_location \<Rightarrow> real list \<times> real list
             \<Rightarrow> real \<times> real \<times> real \<times> real \<Rightarrow> 'a"
  atioq :: "ndarray \<Rightarrow> ndarray \<Rightarrow> 'a \<Rightarrow> ndarray \<times> ndarray \<times> ndarray \<times> ndarray \<times> ndarray"
  atoiq :: "string \<Rightarrow> ndarray \<Rightarrow> ndarray \<Rightarrow> 'a \<Rightarrow> ndarray \<times> ndarray"

definition PIOVER2 :: real where
  "PIOVER2 = pi / 2"

definition get_polar_motion :: "'a externals \<Rightarrow> time \<Rightarrow> real list \<times> real list" where
  "get_polar_motion ext t = pm_xy ext (jd1 t) (jd2 t)"

definition first_item :: "real list \<Rightarrow> error + real" where
  "first_item xs = (case xs of [] \<Rightarrow> Inl (IndexError ''index out of range'') | x # _ \<Rightarrow> Inr x)"

definition angle_quantity :: "ndarray \<Rightarrow> component" where
  "angle_quantity a = Qty \<lparr>shape = fst a, vals = snd a, ptype = angle_type\<rparr>"

text \<open>
  The astrometry context of lines 47-56 and 75-84: the time, location and polar motion
  given, and the atmosphere of the frame \<open>atm\<close>.
\<close>

definition astrometry_context ::
  "'a externals \<Rightarrow> time \<Rightarrow> earth_location \<Rightarrow> real list \<times> real list \<Rightarrow> frame \<Rightarrow> error + 'a" where
  "astrometry_context ext t loc pm atm =
     ebind (first_item (delta_ut1_utc t)) (\<lambda>dut1.
     ebind (get_altaz atm) (\<lambda>a.
       Inr (apio13 ext (jd1 t, jd2 t, dut1) loc pm
              (aa_pressure a, aa_temperature a, aa_relative_humidity a, aa_obswl a))))"

text \<open>
  \<^verbatim>\<open>transform_to\<close>, the dispatch through the transformation graph
  (\<^verbatim>\<open>baseframe.py\<close>, \<^verbatim>\<open>transformations.py\<close>), is not part of the sources and is a
  parameter of the three registered functions.
\<close>

text \<open>Lines 40-63 of \<^verbatim>\<open>cirs_to_altaz\<close>: the observed place of a CIRS coordinate.\<close>

definition cirs_to_altaz_observe :: "'a externals \<Rightarrow> frame \<Rightarrow> frame \<Rightarrow> error + frame" where
  "cirs_to_altaz_observe ext cirs_coo altaz_frame =
     ebind (frame_lon cirs_coo) (\<lambda>cirs_ra.
     ebind (frame_lat cirs_coo) (\<lambda>cirs_dec.
     ebind (get_geodetic altaz_frame) (\<lambda>loc.
     ebind (get_obstime cirs_coo) (\<lambda>t.
     ebind (astrometry_context ext t loc (get_polar_motion ext t) altaz_frame) (\<lambda>astrom.
       (case atioq ext (shape cirs_ra, vals cirs_ra) (shape cirs_dec, vals cirs_dec) astrom of
          (az, zen, ha, obs_dec, obs_ra) \<Rightarrow>
            ebind (UnitSphericalRepresentation_init
                     (angle_quantity az)
                     (angle_quantity (fst zen, map (\<lambda>v. PIOVER2 - v) (snd zen)))) (\<lambda>rep.
              Inr (realize_frame altaz_frame (UnitSpherical rep)))))))))"

text \<open>
  \<^verbatim>\<open>cirs_to_altaz\<close>: lines 35-39 replace \<^verbatim>\<open>cirs_coo\<close> by its transform to CIRS at the
  target's observation time when \<^verbatim>\<open>np.all(cirs_coo.obstime != altaz_frame.obstime)\<close>.
\<close>

definition cirs_to_altaz ::
  "'a externals \<Rightarrow> (frame \<Rightarrow> frame \<Rightarrow> error + frame) \<Rightarrow> frame \<Rightarrow> frame \<Rightarrow> error + frame" where
  "cirs_to_altaz ext transform_to cirs_coo altaz_frame =
     ebind (get_obstime cirs_coo) (\<lambda>t_coo.
     ebind (get_obstime altaz_frame) (\<lambda>t_frame.
     ebind (time_ne t_coo t_frame) (\<lambda>ne.
     ebind (if np_all ne then transform_to cirs_coo (CIRS_frame t_frame) else Inr cirs_coo)
       (\<lambda>cirs_coo. cirs_to_altaz_observe ext cirs_coo altaz_frame))))"

text \<open>
  Name lookup in \<^verbatim>\<open>altaz_to_cirs\<close>: the frames in scope are its two parameters; the
  module binds no frame at top level (its globals are the imports, \<^verbatim>\<open>_PIOVER2\<close> and the
  functions). A name that is not bound raises \<open>NameError\<close>.
\<close>

definition load_name :: "(string \<times> frame) list \<Rightarrow> string \<Rightarrow> error + frame" where
  "load_name scope n = (case map_of scope n of None \<Rightarrow> Inl (NameError n) | Some v \<Rightarrow> Inr v)"

definition altaz_to_cirs ::
  "'a externals \<Rightarrow> (frame \<Rightarrow> frame \<Rightarrow> error + frame) \<Rightarrow> frame \<Rightarrow> frame \<Rightarrow> error + frame" where
  "altaz_to_cirs ext transform_to altaz_coo cirs_frame =
     (let scope = [(''altaz_coo'', altaz_coo), (''cirs_frame'', cirs_frame)] in
      ebind (frame_lon altaz_coo) (\<lambda>az.
      ebind (frame_lat altaz_coo) (\<lambda>alt.
      let zen = (shape alt, map (\<lambda>v. PIOVER2 - v) (vals alt)) in
      ebind (load_name scope ''altaz_frame'') (\<lambda>altaz_frame.
      ebind (get_geodetic altaz_frame) (\<lambda>loc.
      ebind (get_obstime altaz_coo) (\<lambda>t.
      ebind (astrometry_context ext t loc (get_polar_motion ext t) altaz_coo) (\<lambda>astrom.
        (case atoiq ext ''A'' (shape az, vals az) zen astrom of
           (cirs_ra, cirs_dec) \<Rightarrow>
             ebind (CIRS_init (Num (fst cirs_ra) (snd cirs_ra))
                              (Num (fst cirs_dec) (snd cirs_dec)) t) (\<lambda>c.
               transform_to c cirs_frame)))))))))"

definition altaz_to_altaz ::
  "(frame \<Rightarrow> frame \<Rightarrow> error + frame) \<Rightarrow> frame \<Rightarrow> frame \<Rightarrow> error + frame" where
  "altaz_to_altaz transform_to from_coo to_frame =
     ebind (get_obstime from_coo) (\<lambda>t.
     ebind (transform_to from_coo (CIRS_frame t)) (\<lambda>c.
       transform_to c to_frame))"

section \<open>Invariants of the representations\<close>

text \<open>
  The shape invariant of a representation: every component has the shape of the first.
\<close>

definition rep_shape :: "representation \<Rightarrow> nat list" where
  "rep_shape r =
     (case r of
        Cartesian c \<Rightarrow> shape (c_x c)
      | Spherical s \<Rightarrow> shape (s_lon s)
      | UnitSpherical u \<Rightarrow> shape (u_lon u)
      | PhysicsSpherical p \<Rightarrow> shape (p_phi p)
      | Cylindrical c \<Rightarrow> shape (cyl_rho c))"

definition same_shape :: "representation \<Rightarrow> bool" where
  "same_shape r =
     (case r of
        Cartesian c \<Rightarrow> shape (c_y c) = shape (c_x c) \<and> shape (c_z c) = shape (c_x c)
      | Spherical s \<Rightarrow> shape (s_lat s) = shape (s_lon s) \<and> shape (s_distance s) = shape (s_lon s)
      | UnitSpherical u \<Rightarrow> shape (u_lat u) = shape (u_lon u)
      | PhysicsSpherical p \<Rightarrow>
          shape (p_theta p) = shape (p_phi p) \<and> shape (p_distance p) = shape (p_phi p)
      | Cylindrical c \<Rightarrow> shape (cyl_phi c) = shape (cyl_rho c) \<and> shape (cyl_z c) = shape (cyl_rho c))"

text \<open>
  What the constructors establish, beyond the common shape: every component holds as
  many numbers as its shape says, the angular components are angles, a longitude lies in
  \<open>[0, 2\<pi>)\<close> and a latitude in \<open>[-\<pi>/2, \<pi>/2]\<close>, and the two lengths of a cylindrical
  representation have one physical type.
\<close>

definition array_at :: "nat list \<Rightarrow> quantity \<Rightarrow> bool" where
  "array_at s q \<longleftrightarrow> shape q = s \<and> length (vals q) = prod_list s"

definition all_vals :: "(real \<Rightarrow> bool) \<Rightarrow> quantity \<Rightarrow> bool" where
  "all_vals P q \<longleftrightarrow> list_all P (vals q)"

definition Spherical_instance :: "spherical \<Rightarrow> bool" where
  "Spherical_instance r \<longleftrightarrow>
     array_at (shape (s_lon r)) (s_lon r) \<and> array_at (shape (s_lon r)) (s_lat r) \<and>
     array_at (shape (s_lon r)) (s_distance r) \<and>
     ptype (s_lon r) = angle_type \<and> ptype (s_lat r) = angle_type \<and>
     all_vals (\<lambda>v. 0 \<le> v \<and> v < 2 * pi) (s_lon r) \<and>
     all_vals (\<lambda>v. - (pi / 2) \<le> v \<and> v \<le> pi / 2) (s_lat r)"

definition UnitSpherical_instance :: "unit_spherical \<Rightarrow> bool" where
  "UnitSpherical_instance r \<longleftrightarrow>
     array_at (shape (u_lon r)) (u_lon r) \<and> array_at (shape (u_lon r)) (u_lat r) \<and>
     ptype (u_lon r) = angle_type \<and> ptype (u_lat r) = angle_type \<and>
     all_vals (\<lambda>v. 0 \<le> v \<and> v < 2 * pi) (u_lon r) \<and>
     all_vals (\<lambda>v. - (pi / 2) \<le> v \<and> v \<le> pi / 2) (u_lat r)"

definition PhysicsSpherical_instance :: "physics_spherical \<Rightarrow> bool" where
  "PhysicsSpherical_instance r \<longleftrightarrow>
     array_at (shape (p_phi r)) (p_phi r) \<and> array_at (shape (p_phi r)) (p_theta r) \<and>
     array_at (shape (p_phi r)) (p_distance r) \<and>
     ptype (p_phi r) = angle_type \<and> ptype (p_theta r) = angle_type"

definition Cylindrical_instance :: "cylindrical \<Rightarrow> bool" where
  "Cylindrical_instance r \<longleftrightarrow>
     array_at (shape (cyl_rho r)) (cyl_rho r) \<and> array_at (shape (cyl_rho r)) (cyl_phi r) \<and>
     array_at (shape (cyl_rho r)) (cyl_z r) \<and>
     ptype (cyl_phi r) = angle_type \<and> ptype (cyl_z r) = ptype (cyl_rho r)"

text \<open>
  \<open>fits_rev s t\<close>: an array whose reversed shape is \<open>s\<close> can be broadcast to the reversed
  shape \<open>t\<close>, every axis of \<open>s\<close> having the length of the axis of \<open>t\<close> at its place, or
  length one.
\<close>

fun fits_rev :: "nat list \<Rightarrow> nat list \<Rightarrow> bool" where
  "fits_rev [] t = True"
| "fits_rev (d # ds) [] = False"
| "fits_rev (d # ds) (e # es) = ((d = e \<or> d = 1) \<and> fits_rev ds es)"

definition wf_component :: "component \<Rightarrow> bool" where
  "wf_component c \<longleftrightarrow> length (comp_vals c) = prod_list (comp_shape c)"

section \<open>Example inputs\<close>

definition example_angle :: quantity where
  "example_angle = \<lparr>shape = [], vals = [0], ptype = angle_type\<rparr>"

definition example_angles2 :: quantity where
  "example_angles2 = \<lparr>shape = [2], vals = [0, 0], ptype = angle_type\<rparr>"

definition example_time :: time where
  "example_time = \<lparr>jd1 = [2451545], jd2 = [0], delta_ut1_utc = [0]\<rparr>"

definition example_times_a :: time where
  "example_times_a = \<lparr>jd1 = [2451545, 2451546], jd2 = [0, 0], delta_ut1_utc = [0, 0]\<rparr>"

definition example_times_b :: time where
  "example_times_b = \<lparr>jd1 = [2451545, 2451547], jd2 = [0, 0], delta_ut1_utc = [0, 0]\<rparr>"

definition example_attributes :: "time \<Rightarrow> altaz_attributes" where
  "example_attributes t =
     \<lparr>aa_obstime = t,
      aa_location = Some \<lparr>geodetic_lon = 0, geodetic_lat = 0, geodetic_height = 0\<rparr>,
      aa_pressure = 0, aa_temperature = 0, aa_relative_humidity = 0, aa_obswl = 1\<rparr>"

definition example_altaz_coo :: frame where
  "example_altaz_coo =
     \<lparr>attributes = AltAz (example_attributes example_time),
      data = Some (UnitSpherical \<lparr>u_lon = example_angle, u_lat = example_angle\<rparr>)\<rparr>"

definition example_cirs_coo :: frame where
  "example_cirs_coo =
     \<lparr>attributes = CIRS example_times_a,
      data = Some (UnitSpherical \<lparr>u_lon = example_angles2, u_lat = example_angles2\<rparr>)\<rparr>"

definition example_altaz_frame :: frame where
  "example_altaz_frame = \<lparr>attributes = AltAz (example_attributes example_times_b), data = None\<rparr>"

definition example_externals :: "unit externals" where
  "example_externals =
     \<lparr>pm_xy = (\<lambda>a b. ([0], [0])),
      apio13 = (\<lambda>t loc pm atm. ()),
      atioq = (\<lambda>ra dec astrom. (ra, dec, ra, dec, ra)),
      atoiq = (\<lambda>mode a b astrom. (a, b))\<rparr>"

text \<open>A dispatcher that only relabels: the data of the source under the target's attributes.\<close>

definition example_transform_to :: "frame \<Rightarrow> frame \<Rightarrow> error + frame" where
  "example_transform_to coo fr = Inr (fr\<lparr>data := data coo\<rparr>)"

text \<open>Two points, \<open>(0, 0, 0)\<close> and \<open>(1, 0, 0)\<close> metres: the first lies on the z-axis.\<close>

definition example_cart :: cartesian where
  "example_cart =
     \<lparr>c_x = \<lparr>shape = [2], vals = [0, 1], ptype = length_type\<rparr>,
      c_y = \<lparr>shape = [2], vals = [0, 0], ptype = length_type\<rparr>,
      c_z = \<lparr>shape = [2], vals = [0, 0], ptype = length_type\<rparr>\<rparr>"

definition example_sph :: spherical where
  "example_sph =
     \<lparr>s_lon = \<lparr>shape = [2], vals = [0, 0], ptype = angle_type\<rparr>,
      s_lat = \<lparr>shape = [2], vals = [0, 0], ptype = angle_type\<rparr>,
      s_distance = \<lparr>shape = [2], vals = [1, 2], ptype = length_type\<rparr>\<rparr>"

definition example_metres2 :: component where
  "example_metres2 = Qty \<lparr>shape = [2], vals = [1, 2], ptype = length_type\<rparr>"

definition example_metre :: component where
  "example_metre = Qty \<lparr>shape = [], vals = [3], ptype = length_type\<rparr>"

definition example_numbers3 :: component where
  "example_numbers3 = Num [3] [1, 2, 3]"

definition example_angle_comp :: component where
  "example_angle_comp = Qty \<lparr>shape = [], vals = [0], ptype = angle_type\<rparr>"

definition example_cart_result :: cartesian where
  "example_cart_result =
     \<lparr>c_x = \<lparr>shape = [2], vals = [1, 2], ptype = length_type\<rparr>,
      c_y = \<lparr>shape = [2], vals = [0, 0], ptype = length_type\<rparr>,
      c_z = \<lparr>shape = [2], vals = [0, 0], ptype = length_type\<rparr>\<rparr>"

definition example_cart_b :: cartesian where
  "example_cart_b =
     \<lparr>c_x = \<lparr>shape = [2], vals = [1, 2], ptype = length_type\<rparr>,
      c_y = \<lparr>shape = [2], vals = [3, 3], ptype = length_type\<rparr>,
      c_z = \<lparr>shape = [2], vals = [1, 2], ptype = length_type\<rparr>\<rparr>"

definition example_usph :: unit_spherical where
  "example_usph = \<lparr>u_lon = example_angle, u_lat = example_angle\<rparr>"

definition example_psph :: physics_spherical where
  "example_psph =
     \<lparr>p_phi = \<lparr>shape = [2], vals = [0, 0], ptype = angle_type\<rparr>,
      p_theta = \<lparr>shape = [2], vals = [pi / 2, pi / 2], ptype = angle_type\<rparr>,
      p_distance = \<lparr>shape = [2], vals = [1, 2], ptype = length_type\<rparr>\<rparr>"

definition example_psph0 :: physics_spherical where
  "example_psph0 =
     \<lparr>p_phi = example_angle, p_theta = example_angle,
      p_distance = \<lparr>shape = [], vals = [3], ptype = length_type\<rparr>\<rparr>"

definition example_cyl0 :: cylindrical where
  "example_cyl0 =
     \<lparr>cyl_rho = \<lparr>shape = [], vals = [3], ptype = length_type\<rparr>, cyl_phi = example_angle,
      cyl_z = \<lparr>shape = [], vals = [3], ptype = length_type\<rparr>\<rparr>"

definition example_metres3 :: component where
  "example_metres3 = Qty \<lparr>shape = [3], vals = [1, 2, 3], ptype = length_type\<rparr>"

definition example_angles3 :: quantity where
  "example_angles3 = \<lparr>shape = [3], vals = [0, 0, 0], ptype = angle_type\<rparr>"


section \<open>Basic facts\<close>

lemma ebind_simps [simp]: "ebind (Inl e) f = Inl e" "ebind (Inr v) f = f v"
  by (simp_all add: ebind_def)

lemma length_unravel [simp]: "length (unravel s k) = length s"
  by (induction s arbitrary: k) simp_all

lemma unravel_unit_axes:
  "map2 (\<lambda>d i. if d = 1 then 0 else i) s (unravel s k) = unravel s k"
  by (induction s arbitrary: k) simp_all

lemma ravel_unravel: "k < prod_list s \<Longrightarrow> ravel s (unravel s k) = k"
proof (induction s arbitrary: k)
  case Nil
  then show ?case by simp
next
  case (Cons d ds)
  have pos: "0 < prod_list ds"
    using Cons.prems by (cases "prod_list ds = 0") simp_all
  have "k div prod_list ds < d"
    using Cons.prems pos by (simp add: less_mult_imp_div_less mult.commute)
  moreover have "ravel ds (unravel ds (k mod prod_list ds)) = k mod prod_list ds"
    using pos by (intro Cons.IH) simp
  ultimately show ?case by simp
qed

text \<open>Broadcasting an array to its own shape changes nothing.\<close>

lemma broadcast_to_same [simp]:
  assumes "length xs = prod_list s"
  shows "broadcast_to s s xs = xs"
proof -
  have "ravel s (map2 (\<lambda>d i. if d = 1 then 0 else i) s
                   (drop (length s - length s) (unravel s k))) = k"
    if "k < prod_list s" for k
    using that by (simp only: diff_self_eq_0 drop_0 unravel_unit_axes ravel_unravel)
  then have "broadcast_to s s xs = map (\<lambda>k. xs ! k) [0 ..< prod_list s]"
    unfolding broadcast_to_def by (intro map_cong refl) simp
  also have "\<dots> = xs"
    using assms by (metis map_nth)
  finally show ?thesis .
qed

lemma broadcast_shapes2_same [simp]: "broadcast_shapes2 s s = Some s"
proof -
  have "broadcast_rev xs xs = Some xs" for xs
    by (induction xs) (simp_all add: broadcast_dim_def)
  then show ?thesis by (simp add: broadcast_shapes2_def)
qed

lemma represent_as_own_class: "represent_as r (class_of r) = Inr r"
  by (cases r) (simp_all add: represent_as_def Spherical_represent_as_def
      PhysicsSpherical_represent_as_def BaseRepresentation_represent_as_def class_of_def)

lemma example_altaz_coo_lon: "frame_lon example_altaz_coo = Inr example_angle"
  by (simp add: frame_lon_def example_altaz_coo_def represent_as_def
      BaseRepresentation_represent_as_def class_of_def)

lemma example_altaz_coo_lat: "frame_lat example_altaz_coo = Inr example_angle"
  by (simp add: frame_lat_def example_altaz_coo_def represent_as_def
      BaseRepresentation_represent_as_def class_of_def)

section \<open>Constructors and shapes\<close>

lemma ebind_eq_Inr: "ebind m f = Inr y \<longleftrightarrow> (\<exists>v. m = Inr v \<and> f v = Inr y)"
  by (cases m) simp_all

lemma shape_broadcast_as [simp]: "shape (broadcast_as s q) = s"
  by (simp add: broadcast_as_def)

lemma ptype_broadcast_as [simp]: "ptype (broadcast_as s q) = ptype q"
  by (simp add: broadcast_as_def)

lemma Quantity_of_shape: "Quantity_of c unit = Inr q \<Longrightarrow> shape q = comp_shape c"
  by (auto simp: Quantity_of_def comp_shape_def split: component.splits option.splits if_splits)

lemma Angle_shape: "Angle c = Inr q \<Longrightarrow> shape q = comp_shape c"
  by (auto simp: Angle_def comp_shape_def split: component.splits if_splits)

lemma Longitude_shape: "Longitude c = Inr q \<Longrightarrow> shape q = comp_shape c"
  by (auto simp: Longitude_def ebind_eq_Inr dest: Angle_shape)

lemma Latitude_shape: "Latitude c = Inr q \<Longrightarrow> shape q = comp_shape c"
  by (auto simp: Latitude_def ebind_eq_Inr dest: Angle_shape split: if_splits)

lemma distance_arg_shape: "distance_arg c = Inr q \<Longrightarrow> shape q = comp_shape c"
  by (auto simp: distance_arg_def Distance_def comp_shape_def Quantity_of_def
      split: component.splits if_splits)

lemma broadcast_quantity3:
  "broadcast_quantity [a, b, c] =
     (case broadcast_shapes [shape a, shape b, shape c] of
        None \<Rightarrow> Inl (ValueError ''shape mismatch: objects cannot be broadcast to a single shape'')
      | Some s \<Rightarrow> Inr [broadcast_as s a, broadcast_as s b, broadcast_as s c])"
  by (simp add: broadcast_quantity_def split: option.splits del: broadcast_shapes.simps)

lemma broadcast_quantity2:
  "broadcast_quantity [a, b] =
     (case broadcast_shapes [shape a, shape b] of
        None \<Rightarrow> Inl (ValueError ''shape mismatch: objects cannot be broadcast to a single shape'')
      | Some s \<Rightarrow> Inr [broadcast_as s a, broadcast_as s b])"
  by (simp add: broadcast_quantity_def split: option.splits del: broadcast_shapes.simps)

lemma Cartesian_init_Inr:
  "CartesianRepresentation_init x y z unit = Inr c \<longleftrightarrow>
   (\<exists>x1 y1 z1 xq yq zq s.
      Cartesian_args x y z = Inr (x1, y1, z1) \<and> Quantity_arg x1 unit = Inr xq \<and>
      Quantity_of y1 unit = Inr yq \<and> Quantity_of z1 unit = Inr zq \<and>
      ptype xq = ptype yq \<and> ptype yq = ptype zq \<and>
      broadcast_shapes [shape xq, shape yq, shape zq] = Some s \<and>
      c = \<lparr>c_x = broadcast_as s xq, c_y = broadcast_as s yq, c_z = broadcast_as s zq\<rparr>)"
  by (cases "Cartesian_args x y z")
     (auto simp: CartesianRepresentation_init_def ebind_eq_Inr broadcast_quantity3
        split: option.splits if_splits simp del: broadcast_shapes.simps)

lemma Spherical_init_Inr:
  "SphericalRepresentation_init lon lat d = Inr r \<longleftrightarrow>
   (\<exists>a b c s.
      Longitude lon = Inr a \<and> Latitude lat = Inr b \<and> distance_arg d = Inr c \<and>
      broadcast_shapes [shape a, shape b, shape c] = Some s \<and>
      r = \<lparr>s_lon = broadcast_as s a, s_lat = broadcast_as s b, s_distance = broadcast_as s c\<rparr>)"
  by (cases "Longitude lon"; cases "Latitude lat"; cases "distance_arg d")
     (auto simp: SphericalRepresentation_init_def broadcast_quantity3 broadcast_quantity2 split: option.splits simp del: broadcast_shapes.simps)

lemma UnitSpherical_init_Inr:
  "UnitSphericalRepresentation_init lon lat = Inr r \<longleftrightarrow>
   (\<exists>a b s.
      Longitude lon = Inr a \<and> Latitude lat = Inr b \<and>
      broadcast_shapes [shape a, shape b] = Some s \<and>
      r = \<lparr>u_lon = broadcast_as s a, u_lat = broadcast_as s b\<rparr>)"
  by (cases "Longitude lon"; cases "Latitude lat")
     (auto simp: UnitSphericalRepresentation_init_def broadcast_quantity3 broadcast_quantity2 split: option.splits simp del: broadcast_shapes.simps)

lemma PhysicsSpherical_init_Inr:
  "PhysicsSphericalRepresentation_init phi theta d = Inr r \<longleftrightarrow>
   (\<exists>a b c s.
      Angle phi = Inr a \<and> Angle theta = Inr b \<and> distance_arg d = Inr c \<and>
      broadcast_shapes [shape a, shape b, shape c] = Some s \<and>
      r = \<lparr>p_phi = broadcast_as s a, p_theta = broadcast_as s b, p_distance = broadcast_as s c\<rparr>)"
  by (cases "Angle phi"; cases "Angle theta"; cases "distance_arg d")
     (auto simp: PhysicsSphericalRepresentation_init_def broadcast_quantity3 broadcast_quantity2 split: option.splits simp del: broadcast_shapes.simps)

lemma Cylindrical_init_Inr:
  "CylindricalRepresentation_init rho phi z = Inr r \<longleftrightarrow>
   (\<exists>a b c s.
      Quantity_of rho None = Inr a \<and> Angle phi = Inr b \<and> Quantity_of z None = Inr c \<and>
      ptype a = ptype c \<and>
      broadcast_shapes [shape a, shape b, shape c] = Some s \<and>
      r = \<lparr>cyl_rho = broadcast_as s a, cyl_phi = broadcast_as s b, cyl_z = broadcast_as s c\<rparr>)"
  by (cases "Quantity_of rho None"; cases "Angle phi"; cases "Quantity_of z None")
     (auto simp: CylindricalRepresentation_init_def broadcast_quantity3 broadcast_quantity2 split: option.splits simp del: broadcast_shapes.simps)

lemma Cartesian_init_same_shape:
  "CartesianRepresentation_init x y z unit = Inr c \<Longrightarrow> same_shape (Cartesian c)"
  by (auto simp: Cartesian_init_Inr same_shape_def)

lemma Cartesian_init_broadcast_shape:
  assumes "CartesianRepresentation_init (Arr cx) (Some cy) (Some cz) unit = Inr c"
  shows "broadcast_shapes [comp_shape cx, comp_shape cy, comp_shape cz] = Some (shape (c_x c))"
  using assms unfolding Cartesian_init_Inr
  by (auto simp: Cartesian_args_def Quantity_arg_def simp del: broadcast_shapes.simps dest!: Quantity_of_shape)

lemma Spherical_init_shape:
  assumes "SphericalRepresentation_init lon lat d = Inr r"
  shows "same_shape (Spherical r) \<and>
         broadcast_shapes [comp_shape lon, comp_shape lat, comp_shape d] = Some (shape (s_lon r))"
  using assms unfolding Spherical_init_Inr
  by (auto simp: same_shape_def simp del: broadcast_shapes.simps dest!: Longitude_shape Latitude_shape distance_arg_shape)

lemma UnitSpherical_init_shape:
  assumes "UnitSphericalRepresentation_init lon lat = Inr r"
  shows "same_shape (UnitSpherical r) \<and>
         broadcast_shapes [comp_shape lon, comp_shape lat] = Some (shape (u_lon r))"
  using assms unfolding UnitSpherical_init_Inr
  by (auto simp: same_shape_def simp del: broadcast_shapes.simps dest!: Longitude_shape Latitude_shape)

lemma PhysicsSpherical_init_shape:
  assumes "PhysicsSphericalRepresentation_init phi theta d = Inr r"
  shows "same_shape (PhysicsSpherical r) \<and>
         broadcast_shapes [comp_shape phi, comp_shape theta, comp_shape d] = Some (shape (p_phi r))"
  using assms unfolding PhysicsSpherical_init_Inr
  by (auto simp: same_shape_def simp del: broadcast_shapes.simps dest!: Angle_shape distance_arg_shape)

lemma Cylindrical_init_shape:
  assumes "CylindricalRepresentation_init rho phi z = Inr r"
  shows "same_shape (Cylindrical r) \<and>
         broadcast_shapes [comp_shape rho, comp_shape phi, comp_shape z] = Some (shape (cyl_rho r))"
  using assms unfolding Cylindrical_init_Inr
  by (auto simp: same_shape_def simp del: broadcast_shapes.simps dest!: Angle_shape Quantity_of_shape)

lemma Cartesian_xyz_same_shape: "Cartesian_xyz x y z = Inr c \<Longrightarrow> same_shape (Cartesian c)"
  unfolding Cartesian_xyz_def by (rule Cartesian_init_same_shape)

lemma to_cartesian_same_shape:
  assumes "to_cartesian r = Inr c" "same_shape r"
  shows "same_shape (Cartesian c)"
proof (cases r)
  case (Cartesian c')
  then show ?thesis using assms by (simp add: to_cartesian_def)
next
  case (Spherical s)
  then show ?thesis using assms(1)
    by (auto simp: to_cartesian_def Spherical_to_cartesian_def Let_def ebind_eq_Inr
        dest: Cartesian_xyz_same_shape)
next
  case (UnitSpherical u)
  then show ?thesis using assms(1)
    by (auto simp: to_cartesian_def UnitSpherical_to_cartesian_def Let_def ebind_eq_Inr
        dest: Cartesian_xyz_same_shape)
next
  case (PhysicsSpherical p)
  then show ?thesis using assms(1)
    by (auto simp: to_cartesian_def PhysicsSpherical_to_cartesian_def Let_def ebind_eq_Inr
        dest: Cartesian_xyz_same_shape)
next
  case (Cylindrical cy)
  then show ?thesis using assms(1)
    by (auto simp: to_cartesian_def Cylindrical_to_cartesian_def Let_def ebind_eq_Inr
        dest: Cartesian_xyz_same_shape)
qed

lemma map_sum_eq_Inr: "map_sum id f m = Inr y \<longleftrightarrow> (\<exists>v. m = Inr v \<and> y = f v)"
  by (cases m) auto

lemma from_cartesian_same_shape:
  assumes "from_cartesian cls c = Inr r" "same_shape (Cartesian c)"
  shows "same_shape r"
proof (cases cls)
  case CartesianRepresentation
  then show ?thesis using assms by (auto simp: from_cartesian_def)
next
  case SphericalRepresentation
  then show ?thesis using assms(1)
    by (auto simp: from_cartesian_def Spherical_from_cartesian_def Let_def ebind_eq_Inr
        map_sum_eq_Inr dest: Spherical_init_shape)
next
  case UnitSphericalRepresentation
  then show ?thesis using assms(1)
    by (auto simp: from_cartesian_def UnitSpherical_from_cartesian_def Let_def ebind_eq_Inr
        map_sum_eq_Inr dest: UnitSpherical_init_shape)
next
  case PhysicsSphericalRepresentation
  then show ?thesis using assms(1)
    by (auto simp: from_cartesian_def PhysicsSpherical_from_cartesian_def Let_def ebind_eq_Inr
        map_sum_eq_Inr dest: PhysicsSpherical_init_shape)
next
  case CylindricalRepresentation
  then show ?thesis using assms(1)
    by (auto simp: from_cartesian_def Cylindrical_from_cartesian_def Let_def ebind_eq_Inr
        map_sum_eq_Inr dest: Cylindrical_init_shape)
qed

lemma Base_represent_as_same_shape:
  assumes "BaseRepresentation_represent_as r cls = Inr r'" "same_shape r"
  shows "same_shape r'"
  using assms
  by (auto simp: BaseRepresentation_represent_as_def ebind_eq_Inr split: if_splits
      dest: to_cartesian_same_shape from_cartesian_same_shape)

lemma represent_as_same_shape:
  assumes "represent_as r cls = Inr r'" "same_shape r"
  shows "same_shape r'"
proof (cases r)
  case (Spherical s)
  then show ?thesis using assms
    by (auto simp: represent_as_def Spherical_represent_as_def ebind_eq_Inr map_sum_eq_Inr
        split: if_splits dest: PhysicsSpherical_init_shape Base_represent_as_same_shape)
next
  case (PhysicsSpherical p)
  then show ?thesis using assms
    by (auto simp: represent_as_def PhysicsSpherical_represent_as_def ebind_eq_Inr map_sum_eq_Inr
        split: if_splits dest: Spherical_init_shape Base_represent_as_same_shape)
qed (use assms in \<open>auto simp: represent_as_def dest: Base_represent_as_same_shape\<close>)

section \<open>The CIRS and AltAz transformations: properties\<close>

text \<open>
  With scalar observation times on both sides, \<^verbatim>\<open>cirs_to_altaz\<close> reconciles the
  source exactly when the two times differ.
\<close>

lemma cirs_to_altaz_scalar_times:
  assumes "get_obstime cirs_coo = Inr t_coo" "get_obstime altaz_frame = Inr t_frame"
    and "length (instants t_coo) = 1" "length (instants t_frame) = 1"
  shows "cirs_to_altaz ext transform_to cirs_coo altaz_frame =
     (if instants t_coo \<noteq> instants t_frame
      then ebind (transform_to cirs_coo (CIRS_frame t_frame))
             (\<lambda>c. cirs_to_altaz_observe ext c altaz_frame)
      else cirs_to_altaz_observe ext cirs_coo altaz_frame)"
proof -
  obtain a where a: "instants t_coo = [a]"
    using assms(3) by (cases "instants t_coo") simp_all
  obtain b where b: "instants t_frame = [b]"
    using assms(4) by (cases "instants t_frame") simp_all
  show ?thesis
    using assms(1,2) by (simp add: cirs_to_altaz_def time_ne_def a b np_all_def)
qed

text \<open>
  C1. The claim: whenever the observation time of the source differs from that of the
  target, \<^verbatim>\<open>cirs_to_altaz\<close> first transforms the source to CIRS at the target's time.
  The code tests \<^verbatim>\<open>np.all(cirs_coo.obstime != altaz_frame.obstime)\<close>. For the
  two-element times \<open>example_times_a\<close> and \<open>example_times_b\<close>, which agree in their
  first instant and differ in their second, the times differ, yet \<^verbatim>\<open>transform_to\<close> is
  not called: the result is the observed place of the unreconciled source, computed at
  the source's observation time, whatever the dispatcher is.
\<close>

theorem cirs_to_altaz_partly_different_times:
  "instants example_times_a \<noteq> instants example_times_b \<and>
   cirs_to_altaz ext transform_to example_cirs_coo example_altaz_frame
     = cirs_to_altaz_observe ext example_cirs_coo example_altaz_frame"
  by (simp add: cirs_to_altaz_def get_obstime_def example_cirs_coo_def example_altaz_frame_def
      example_attributes_def time_ne_def instants_def example_times_a_def example_times_b_def
      np_all_def)

text \<open>\<^verbatim>\<open>altaz_to_cirs\<close> returns no frame, whatever it is given.\<close>

lemma altaz_to_cirs_never_returns:
  "altaz_to_cirs ext transform_to altaz_coo cirs_frame \<noteq> Inr r"
  by (cases "frame_lon altaz_coo"; cases "frame_lat altaz_coo")
     (simp_all add: altaz_to_cirs_def load_name_def Let_def)

text \<open>
  C2. The claim: \<^verbatim>\<open>altaz_to_cirs\<close> completes without error whenever all required
  attributes of the source are present. The code reads the observer location from the
  name \<^verbatim>\<open>altaz_frame\<close> (line 71), which is bound neither in the function nor in the
  module: once azimuth and altitude of the source have been read, every call raises
  \<open>NameError\<close>.
\<close>

theorem altaz_to_cirs_NameError:
  "frame_lon altaz_coo = Inr az \<Longrightarrow> frame_lat altaz_coo = Inr alt \<Longrightarrow>
   altaz_to_cirs ext transform_to altaz_coo cirs_frame = Inl (NameError ''altaz_frame'')"
  by (simp add: altaz_to_cirs_def load_name_def Let_def)

theorem altaz_to_cirs_NameError_witness:
  "frame_lon example_altaz_coo = Inr example_angle \<and>
   frame_lat example_altaz_coo = Inr example_angle \<and>
   altaz_to_cirs example_externals example_transform_to example_altaz_coo
       (CIRS_frame example_time)
     = Inl (NameError ''altaz_frame'')"
  using altaz_to_cirs_NameError [OF example_altaz_coo_lon example_altaz_coo_lat]
    example_altaz_coo_lon example_altaz_coo_lat
  by simp

text \<open>
  C6. Every AltAz-to-AltAz transform of a source with attributes \<open>a\<close> is the transform
  of the source to the CIRS frame at the source's observation time, followed by the
  transform of that result to the target frame. Nothing is asked of the target: the
  same two steps are taken when its attributes are those of the source.
\<close>

theorem altaz_to_altaz_through_CIRS:
  "attributes from_coo = AltAz a \<Longrightarrow>
   altaz_to_altaz transform_to from_coo to_frame =
     (case transform_to from_coo \<lparr>attributes = CIRS (aa_obstime a), data = None\<rparr> of
        Inl e \<Rightarrow> Inl e
      | Inr cirs_coo \<Rightarrow> transform_to cirs_coo to_frame)"
  by (simp add: altaz_to_altaz_def get_obstime_def CIRS_frame_def ebind_def)

theorem altaz_to_altaz_through_CIRS_witness:
  "attributes example_altaz_coo = AltAz (example_attributes example_time) \<and>
   altaz_to_altaz example_transform_to example_altaz_coo example_altaz_coo
     = Inr example_altaz_coo"
  using altaz_to_altaz_through_CIRS [of example_altaz_coo "example_attributes example_time"
      example_transform_to example_altaz_coo]
  by (simp add: example_altaz_coo_def example_transform_to_def)

section \<open>Representations: properties\<close>



text \<open>
  C5. The claim: \<^verbatim>\<open>CylindricalRepresentation.from_cartesian\<close> succeeds on every
  Cartesian input, also where points with \<open>rho = 0\<close> and points with \<open>rho > 0\<close> are mixed.
  On \<open>example_cart\<close> the mask \<^verbatim>\<open>rho > 0\<close> selects one of the two places of \<^verbatim>\<open>phi\<close>,
  and line 528 assigns the two values of \<^verbatim>\<open>np.arctan2(cart.y, cart.x)\<close> to it: NumPy
  raises \<open>ValueError\<close> and no representation is built.
\<close>

theorem Cylindrical_from_cartesian_mixed_points:
  "Cylindrical_from_cartesian example_cart =
     Inl (ValueError ''boolean array indexing assignment cannot assign the input values to the output values where the mask is true'')"
  by (simp add: Cylindrical_from_cartesian_def example_cart_def q_add_def q_square_def
      elementwise2_def q_sqrt_def np_arctan2_def setitem_mask_def q_gt0_def np_zeros_def
      Let_def ptype_pow_def length_type_def angle_type_def)

section \<open>Shapes: the invariant of the constructors\<close>

text \<open>
  C9. Whatever a constructor of one of the five variants returns has all its components
  at one shape, the broadcast of the shapes passed in; and the conversions
  \<^verbatim>\<open>to_cartesian\<close>, \<^verbatim>\<open>from_cartesian\<close> and \<^verbatim>\<open>represent_as\<close> return
  representations with that invariant whenever they are given one.
\<close>

theorem components_share_one_shape:
  "(CartesianRepresentation_init x y z unit = Inr c1 \<longrightarrow> same_shape (Cartesian c1)) \<and>
   (CartesianRepresentation_init (Arr cx) (Some cy) (Some cz) unit = Inr c2 \<longrightarrow>
      broadcast_shapes [comp_shape cx, comp_shape cy, comp_shape cz]
        = Some (rep_shape (Cartesian c2))) \<and>
   (SphericalRepresentation_init lon lat d = Inr s \<longrightarrow>
      same_shape (Spherical s) \<and>
      broadcast_shapes [comp_shape lon, comp_shape lat, comp_shape d]
        = Some (rep_shape (Spherical s))) \<and>
   (UnitSphericalRepresentation_init lon' lat' = Inr u \<longrightarrow>
      same_shape (UnitSpherical u) \<and>
      broadcast_shapes [comp_shape lon', comp_shape lat'] = Some (rep_shape (UnitSpherical u))) \<and>
   (PhysicsSphericalRepresentation_init phi theta d' = Inr p \<longrightarrow>
      same_shape (PhysicsSpherical p) \<and>
      broadcast_shapes [comp_shape phi, comp_shape theta, comp_shape d']
        = Some (rep_shape (PhysicsSpherical p))) \<and>
   (CylindricalRepresentation_init rho phi' z' = Inr cyl \<longrightarrow>
      same_shape (Cylindrical cyl) \<and>
      broadcast_shapes [comp_shape rho, comp_shape phi', comp_shape z']
        = Some (rep_shape (Cylindrical cyl))) \<and>
   (same_shape r \<and> to_cartesian r = Inr c3 \<longrightarrow> same_shape (Cartesian c3)) \<and>
   (same_shape (Cartesian c4) \<and> from_cartesian cls c4 = Inr r4 \<longrightarrow> same_shape r4) \<and>
   (same_shape r5 \<and> represent_as r5 cls5 = Inr r6 \<longrightarrow> same_shape r6)"
  by (auto simp: rep_shape_def simp del: broadcast_shapes.simps
      dest: Cartesian_init_same_shape Cartesian_init_broadcast_shape Spherical_init_shape
        UnitSpherical_init_shape PhysicsSpherical_init_shape Cylindrical_init_shape
        to_cartesian_same_shape from_cartesian_same_shape represent_as_same_shape)

lemma broadcast_shapes2_Nil [simp]:
  "broadcast_shapes2 s [] = Some s" "broadcast_shapes2 [] s = Some s"
  by (cases "rev s"; simp add: broadcast_shapes2_def; metis rev_rev_ident rev.simps)+

lemma broadcast_shapes_same3 [simp]: "broadcast_shapes [s, s, s] = Some s"
  by simp

lemma broadcast_shapes_same2 [simp]: "broadcast_shapes [s, s] = Some s"
  by simp

lemma broadcast_to_scalar [simp]: "broadcast_to t [] [v] = replicate (prod_list t) v"
  by (simp add: broadcast_to_def map_replicate_const)

lemma broadcast_as_same: "length (vals q) = prod_list (shape q) \<Longrightarrow> broadcast_as (shape q) q = q"
  by (simp add: broadcast_as_def)

lemma example_to_cartesian: "to_cartesian (Spherical example_sph) = Inr example_cart_result"
  by (simp add: to_cartesian_def Spherical_to_cartesian_def example_sph_def np_cos_def np_sin_def
      q_mul_def elementwise2_def Cartesian_xyz_def Cartesian_init_Inr Cartesian_args_def
      example_cart_result_def
      Quantity_arg_def Quantity_of_def ptype_mul_def angle_type_def length_type_def
      dimensionless_def broadcast_as_def)

lemma example_from_cartesian:
  "from_cartesian SphericalRepresentation example_cart_result = Inr (Spherical example_sph)"
  by (simp add: from_cartesian_def Spherical_from_cartesian_def example_cart_result_def
      q_square_def q_add_def q_sqrt_def elementwise2_def np_arctan2_def arctan2_def
      ptype_pow_def length_type_def angle_type_def Let_def map_sum_eq_Inr Spherical_init_Inr
      Longitude_def Latitude_def Angle_def distance_arg_def Distance_def wrap_angle_def
      broadcast_as_def example_sph_def)

lemma example_represent_as:
  "represent_as (Spherical example_sph) PhysicsSphericalRepresentation
     = Inr (PhysicsSpherical
         \<lparr>p_phi = \<lparr>shape = [2], vals = [0, 0], ptype = angle_type\<rparr>,
          p_theta = \<lparr>shape = [2], vals = [pi / 2, pi / 2], ptype = angle_type\<rparr>,
          p_distance = \<lparr>shape = [2], vals = [1, 2], ptype = length_type\<rparr>\<rparr>)"
  apply (simp add: represent_as_def Spherical_represent_as_def example_sph_def q_sub_def numeral_2_eq_2
      ninety_deg_def elementwise2_def map_sum_eq_Inr PhysicsSpherical_init_Inr Angle_def
      distance_arg_def Distance_def broadcast_as_def broadcast_shapes2_def broadcast_dim_def
      angle_type_def length_type_def)
  done

lemma example_Cartesian_init:
  "CartesianRepresentation_init (Arr example_metres2) (Some example_metre) (Some example_metres2) None
     = Inr example_cart_b"
  by (simp add: Cartesian_init_Inr Cartesian_args_def Quantity_arg_def Quantity_of_def
      example_metres2_def example_metre_def broadcast_shapes2_def broadcast_dim_def
      example_cart_b_def broadcast_as_def numeral_2_eq_2)

lemma example_Spherical_init:
  "SphericalRepresentation_init example_angle_comp example_angle_comp example_metres2
     = Inr example_sph"
  by (simp add: Spherical_init_Inr Longitude_def Latitude_def Angle_def distance_arg_def
      Distance_def example_metres2_def example_angle_comp_def broadcast_shapes2_def
      broadcast_dim_def wrap_angle_def example_sph_def broadcast_as_def numeral_2_eq_2)

lemma example_UnitSpherical_init:
  "UnitSphericalRepresentation_init example_angle_comp example_angle_comp = Inr example_usph"
  by (simp add: UnitSpherical_init_Inr Longitude_def Latitude_def Angle_def example_usph_def
      example_angle_comp_def example_angle_def wrap_angle_def broadcast_as_def)

lemma example_PhysicsSpherical_init:
  "PhysicsSphericalRepresentation_init example_angle_comp example_angle_comp example_metre
     = Inr example_psph0"
  by (simp add: PhysicsSpherical_init_Inr Angle_def distance_arg_def Distance_def
      example_psph0_def
      example_angle_comp_def example_angle_def example_metre_def broadcast_as_def)

lemma example_Cylindrical_init:
  "CylindricalRepresentation_init example_metre example_angle_comp example_metre
     = Inr example_cyl0"
  by (simp add: Cylindrical_init_Inr Angle_def Quantity_of_def example_cyl0_def
      example_angle_comp_def example_angle_def example_metre_def broadcast_as_def)

lemma example_represent_as2:
  "represent_as (Spherical example_sph) PhysicsSphericalRepresentation
     = Inr (PhysicsSpherical example_psph)"
  by (simp add: example_represent_as example_psph_def)

theorem components_share_one_shape_witness:
  "CartesianRepresentation_init (Arr example_metres2) (Some example_metre)
       (Some example_metres2) None = Inr example_cart_b \<and>
   same_shape (Cartesian example_cart_b) \<and>
   broadcast_shapes [comp_shape example_metres2, comp_shape example_metre,
                     comp_shape example_metres2] = Some (rep_shape (Cartesian example_cart_b)) \<and>
   SphericalRepresentation_init example_angle_comp example_angle_comp example_metres2
     = Inr example_sph \<and>
   same_shape (Spherical example_sph) \<and>
   UnitSphericalRepresentation_init example_angle_comp example_angle_comp = Inr example_usph \<and>
   same_shape (UnitSpherical example_usph) \<and>
   PhysicsSphericalRepresentation_init example_angle_comp example_angle_comp example_metre
     = Inr example_psph0 \<and>
   same_shape (PhysicsSpherical example_psph0) \<and>
   CylindricalRepresentation_init example_metre example_angle_comp example_metre
     = Inr example_cyl0 \<and>
   same_shape (Cylindrical example_cyl0) \<and>
   to_cartesian (Spherical example_sph) = Inr example_cart_result \<and>
   same_shape (Cartesian example_cart_result) \<and>
   from_cartesian SphericalRepresentation example_cart_result = Inr (Spherical example_sph) \<and>
   represent_as (Spherical example_sph) PhysicsSphericalRepresentation
     = Inr (PhysicsSpherical example_psph) \<and>
   same_shape (PhysicsSpherical example_psph)"
  using components_share_one_shape [where x = "Arr example_metres2" and y = "Some example_metre"
      and z = "Some example_metres2" and unit = None and ?c1.0 = example_cart_b
      and cx = example_metres2 and cy = example_metre and cz = example_metres2
      and ?c2.0 = example_cart_b
      and lon = example_angle_comp and lat = example_angle_comp and d = example_metres2
      and s = example_sph
      and lon' = example_angle_comp and lat' = example_angle_comp and u = example_usph
      and phi = example_angle_comp and theta = example_angle_comp and d' = example_metre
      and p = example_psph0
      and rho = example_metre and phi' = example_angle_comp and z' = example_metre
      and cyl = example_cyl0
      and r = "Spherical example_sph" and ?c3.0 = example_cart_result
      and ?c4.0 = example_cart_result and cls = SphericalRepresentation
      and ?r4.0 = "Spherical example_sph"
      and ?r5.0 = "Spherical example_sph" and ?cls5.0 = PhysicsSphericalRepresentation
      and ?r6.0 = "PhysicsSpherical example_psph"]
    example_Cartesian_init example_Spherical_init example_UnitSpherical_init
    example_PhysicsSpherical_init example_Cylindrical_init example_to_cartesian
    example_from_cartesian example_represent_as2
  by (simp del: broadcast_shapes.simps)

section \<open>Construction errors\<close>

lemma Cartesian_init_units_error:
  assumes "Quantity_of cx unit = Inr xq" "Quantity_of cy unit = Inr yq"
    "Quantity_of cz unit = Inr zq" "\<not> (ptype xq = ptype yq \<and> ptype yq = ptype zq)"
  shows "CartesianRepresentation_init (Arr cx) (Some cy) (Some cz) unit
           = Inl (UnitsError ''x, y, and z should have matching physical types'')"
  using assms
  by (simp add: CartesianRepresentation_init_def Cartesian_args_def Quantity_arg_def)

lemma Cartesian_init_shape_error:
  assumes "Quantity_of cx unit = Inr xq" "Quantity_of cy unit = Inr yq"
    "Quantity_of cz unit = Inr zq" "ptype xq = ptype yq \<and> ptype yq = ptype zq"
    "broadcast_shapes [comp_shape cx, comp_shape cy, comp_shape cz] = None"
  shows "CartesianRepresentation_init (Arr cx) (Some cy) (Some cz) unit
           = Inl (ValueError ''Input parameters x, y, and z cannot be broadcast'')"
  using assms Quantity_of_shape [OF assms(1)] Quantity_of_shape [OF assms(2)]
    Quantity_of_shape [OF assms(3)]
  by (simp add: CartesianRepresentation_init_def Cartesian_args_def Quantity_arg_def
      broadcast_quantity3 del: broadcast_shapes.simps)

lemma Cylindrical_init_units_error:
  assumes "Quantity_of rho None = Inr a" "Quantity_of z None = Inr c" "ptype a \<noteq> ptype c"
  shows "\<exists>m. CylindricalRepresentation_init rho phi z = Inl (UnitsError m)"
  using assms
  by (cases "Angle phi")
     (auto simp: CylindricalRepresentation_init_def Angle_def split: component.splits if_splits)

lemma Cylindrical_init_shape_error:
  assumes "Quantity_of rho None = Inr a" "Angle phi = Inr b" "Quantity_of z None = Inr c"
    "ptype a = ptype c"
    "broadcast_shapes [comp_shape rho, comp_shape phi, comp_shape z] = None"
  shows "CylindricalRepresentation_init rho phi z
           = Inl (ValueError ''Input parameters rho, phi, and z cannot be broadcast'')"
  using assms Quantity_of_shape [OF assms(1)] Angle_shape [OF assms(2)]
    Quantity_of_shape [OF assms(3)]
  by (simp add: CylindricalRepresentation_init_def broadcast_quantity3
      del: broadcast_shapes.simps)

lemma Spherical_init_shape_error:
  assumes "Longitude lon = Inr a" "Latitude lat = Inr b" "distance_arg d = Inr c"
    "broadcast_shapes [comp_shape lon, comp_shape lat, comp_shape d] = None"
  shows "SphericalRepresentation_init lon lat d
           = Inl (ValueError ''Input parameters lon, lat, and distance cannot be broadcast'')"
  using assms Longitude_shape [OF assms(1)] Latitude_shape [OF assms(2)]
    distance_arg_shape [OF assms(3)]
  by (simp add: SphericalRepresentation_init_def broadcast_quantity3
      del: broadcast_shapes.simps)

lemma UnitSpherical_init_shape_error:
  assumes "Longitude lon = Inr a" "Latitude lat = Inr b"
    "broadcast_shapes [comp_shape lon, comp_shape lat] = None"
  shows "UnitSphericalRepresentation_init lon lat
           = Inl (ValueError ''Input parameters lon and lat cannot be broadcast'')"
  using assms Longitude_shape [OF assms(1)] Latitude_shape [OF assms(2)]
  by (simp add: UnitSphericalRepresentation_init_def broadcast_quantity2
      del: broadcast_shapes.simps)

lemma PhysicsSpherical_init_shape_error:
  assumes "Angle phi = Inr a" "Angle theta = Inr b" "distance_arg d = Inr c"
    "broadcast_shapes [comp_shape phi, comp_shape theta, comp_shape d] = None"
  shows "PhysicsSphericalRepresentation_init phi theta d
           = Inl (ValueError ''Input parameters phi, theta, and distance cannot be broadcast'')"
  using assms Angle_shape [OF assms(1)] Angle_shape [OF assms(2)]
    distance_arg_shape [OF assms(3)]
  by (simp add: PhysicsSphericalRepresentation_init_def broadcast_quantity3
      del: broadcast_shapes.simps)

text \<open>
  Where both errors apply, the check of the physical types (line 108) comes before the
  broadcast (line 112): here \<^verbatim>\<open>x\<close> holds two lengths and \<^verbatim>\<open>y\<close> and \<^verbatim>\<open>z\<close> hold three
  bare numbers, and the error is the units error.
\<close>

lemma Cartesian_units_error_precedes_shape_error:
  "broadcast_shapes [comp_shape example_metres2, comp_shape example_numbers3,
                     comp_shape example_numbers3] = None \<and>
   CartesianRepresentation_init (Arr example_metres2) (Some example_numbers3)
       (Some example_numbers3) None
     = Inl (UnitsError ''x, y, and z should have matching physical types'')"
  by (simp add: CartesianRepresentation_init_def Cartesian_args_def Quantity_arg_def
      Quantity_of_def example_metres2_def example_numbers3_def comp_shape_def
      broadcast_shapes2_def broadcast_dim_def length_type_def dimensionless_def)

text \<open>
  C8. A units error whenever the components that must share a physical type (each as
  \<^verbatim>\<open>u.Quantity\<close> returns it) disagree, for Cartesian \<open>x\<close>/\<open>y\<close>/\<open>z\<close> and Cylindrical
  \<open>rho\<close>/\<open>z\<close>; a shape error whenever the components, each accepted on its own and
  with those physical types in agreement, cannot be broadcast to one shape, for all five
  variants (\<^verbatim>\<open>CartesianRepresentation\<close> given its three components). In each case the
  constructor returns the error and no representation.
\<close>

theorem construction_errors:
  "(Quantity_of cx unit = Inr xq \<and> Quantity_of cy unit = Inr yq \<and> Quantity_of cz unit = Inr zq \<and>
    \<not> (ptype xq = ptype yq \<and> ptype yq = ptype zq) \<longrightarrow>
      CartesianRepresentation_init (Arr cx) (Some cy) (Some cz) unit
        = Inl (UnitsError ''x, y, and z should have matching physical types'')) \<and>
   (Quantity_of rho None = Inr rq \<and> Quantity_of z None = Inr zq' \<and> ptype rq \<noteq> ptype zq' \<longrightarrow>
      (\<exists>m. CylindricalRepresentation_init rho phi z = Inl (UnitsError m))) \<and>
   (Quantity_of cx unit = Inr xq \<and> Quantity_of cy unit = Inr yq \<and> Quantity_of cz unit = Inr zq \<and>
    ptype xq = ptype yq \<and> ptype yq = ptype zq \<and>
    broadcast_shapes [comp_shape cx, comp_shape cy, comp_shape cz] = None \<longrightarrow>
      CartesianRepresentation_init (Arr cx) (Some cy) (Some cz) unit
        = Inl (ValueError ''Input parameters x, y, and z cannot be broadcast'')) \<and>
   (Longitude lon = Inr a1 \<and> Latitude lat = Inr b1 \<and> distance_arg d = Inr d1 \<and>
    broadcast_shapes [comp_shape lon, comp_shape lat, comp_shape d] = None \<longrightarrow>
      SphericalRepresentation_init lon lat d
        = Inl (ValueError ''Input parameters lon, lat, and distance cannot be broadcast'')) \<and>
   (Longitude lon = Inr a1 \<and> Latitude lat = Inr b1 \<and>
    broadcast_shapes [comp_shape lon, comp_shape lat] = None \<longrightarrow>
      UnitSphericalRepresentation_init lon lat
        = Inl (ValueError ''Input parameters lon and lat cannot be broadcast'')) \<and>
   (Angle phi' = Inr a2 \<and> Angle theta = Inr b2 \<and> distance_arg d = Inr d1 \<and>
    broadcast_shapes [comp_shape phi', comp_shape theta, comp_shape d] = None \<longrightarrow>
      PhysicsSphericalRepresentation_init phi' theta d
        = Inl (ValueError ''Input parameters phi, theta, and distance cannot be broadcast'')) \<and>
   (Quantity_of rho None = Inr rq \<and> Angle phi = Inr pq \<and> Quantity_of z None = Inr zq' \<and>
    ptype rq = ptype zq' \<and>
    broadcast_shapes [comp_shape rho, comp_shape phi, comp_shape z] = None \<longrightarrow>
      CylindricalRepresentation_init rho phi z
        = Inl (ValueError ''Input parameters rho, phi, and z cannot be broadcast''))"
proof (intro conjI impI; elim conjE)
qed (erule (3) Cartesian_init_units_error Cartesian_init_shape_error Cylindrical_init_units_error
      Cylindrical_init_shape_error Spherical_init_shape_error UnitSpherical_init_shape_error
      PhysicsSpherical_init_shape_error | blast intro: Cartesian_init_shape_error
      Cylindrical_init_units_error Cylindrical_init_shape_error UnitSpherical_init_shape_error)+

lemma example_Longitude2: "Longitude (Qty example_angles2) = Inr example_angles2"
  by (simp add: Longitude_def Angle_def example_angles2_def wrap_angle_def)

lemma example_Latitude3: "Latitude (Qty example_angles3) = Inr example_angles3"
  by (simp add: Latitude_def Angle_def example_angles3_def)

lemma example_no_broadcast:
  "broadcast_shapes [[2], [3], []] = None" "broadcast_shapes [[2], [3]] = None"
  by (simp_all add: broadcast_shapes2_def broadcast_dim_def)

theorem construction_errors_witness:
  "CartesianRepresentation_init (Arr example_metres2) (Some example_numbers3)
       (Some example_numbers3) None
     = Inl (UnitsError ''x, y, and z should have matching physical types'') \<and>
   (\<exists>m. CylindricalRepresentation_init example_metre example_angle_comp example_numbers3
          = Inl (UnitsError m)) \<and>
   CartesianRepresentation_init (Arr example_metres2) (Some example_metres3)
       (Some example_metre) None
     = Inl (ValueError ''Input parameters x, y, and z cannot be broadcast'') \<and>
   SphericalRepresentation_init (Qty example_angles2) (Qty example_angles3) example_metre
     = Inl (ValueError ''Input parameters lon, lat, and distance cannot be broadcast'') \<and>
   UnitSphericalRepresentation_init (Qty example_angles2) (Qty example_angles3)
     = Inl (ValueError ''Input parameters lon and lat cannot be broadcast'') \<and>
   PhysicsSphericalRepresentation_init (Qty example_angles2) (Qty example_angles3) example_metre
     = Inl (ValueError ''Input parameters phi, theta, and distance cannot be broadcast'') \<and>
   CylindricalRepresentation_init example_metres2 (Qty example_angles3) example_metre
     = Inl (ValueError ''Input parameters rho, phi, and z cannot be broadcast'')"
  using construction_errors [where cx = example_metres2 and cy = example_numbers3
      and cz = example_numbers3 and unit = None
      and xq = "\<lparr>shape = [2], vals = [1, 2], ptype = length_type\<rparr>"
      and yq = "\<lparr>shape = [3], vals = [1, 2, 3], ptype = dimensionless\<rparr>"
      and zq = "\<lparr>shape = [3], vals = [1, 2, 3], ptype = dimensionless\<rparr>"
      and rho = example_metre and z = example_numbers3 and phi = example_angle_comp
      and rq = "\<lparr>shape = [], vals = [3], ptype = length_type\<rparr>"
      and zq' = "\<lparr>shape = [3], vals = [1, 2, 3], ptype = dimensionless\<rparr>"
      and lon = "Qty example_angles2" and lat = "Qty example_angles3" and d = example_metre
      and ?a1.0 = example_angles2 and ?b1.0 = example_angles3
      and ?d1.0 = "\<lparr>shape = [], vals = [3], ptype = length_type\<rparr>"
      and phi' = "Qty example_angles2" and theta = "Qty example_angles3"
      and ?a2.0 = example_angles2 and ?b2.0 = example_angles3]
    construction_errors [where cx = example_metres2 and cy = example_metres3
      and cz = example_metre and unit = None
      and xq = "\<lparr>shape = [2], vals = [1, 2], ptype = length_type\<rparr>"
      and yq = "\<lparr>shape = [3], vals = [1, 2, 3], ptype = length_type\<rparr>"
      and zq = "\<lparr>shape = [], vals = [3], ptype = length_type\<rparr>"
      and rho = example_metres2 and phi = "Qty example_angles3" and z = example_metre
      and rq = "\<lparr>shape = [2], vals = [1, 2], ptype = length_type\<rparr>"
      and pq = example_angles3
      and zq' = "\<lparr>shape = [], vals = [3], ptype = length_type\<rparr>"]
    example_Longitude2 example_Latitude3 example_no_broadcast
  by (simp add: Quantity_of_def example_metres2_def example_numbers3_def example_metre_def
      example_metres3_def example_angle_comp_def comp_shape_def Angle_def distance_arg_def
      Distance_def length_type_def dimensionless_def angle_type_def example_angles2_def
      example_angles3_def del: broadcast_shapes.simps)

section \<open>Angles: the real-number facts\<close>





lemma wrap_angle_range: "0 \<le> wrap_angle a \<and> wrap_angle a < 2 * pi"
proof -
  define m where "m = \<lfloor>a / (2 * pi)\<rfloor>"
  have pos: "(0::real) < 2 * pi" by simp
  have "of_int m \<le> a / (2 * pi)" "a / (2 * pi) < of_int m + 1"
    unfolding m_def by linarith+
  then have "of_int m * (2 * pi) \<le> a" "a < (of_int m + 1) * (2 * pi)"
    using pos_le_divide_eq [OF pos] pos_divide_less_eq [OF pos] by blast+
  then show ?thesis
    unfolding wrap_angle_def m_def [symmetric] by (simp add: algebra_simps)
qed


lemma arctan2_latitude_range:
  assumes "0 \<le> s"
  shows "- (pi / 2) \<le> arctan2 z s \<and> arctan2 z s \<le> pi / 2"
  using assms arctan_bounded [of "z / s"] by (auto simp: arctan2_def)


section \<open>Element-wise arithmetic on arrays of one shape\<close>

lemma elementwise2_same:
  assumes "length xs = prod_list s" "length ys = prod_list s"
  shows "elementwise2 f p \<lparr>shape = s, vals = xs, ptype = pa\<rparr> \<lparr>shape = s, vals = ys, ptype = pb\<rparr>
           = Inr \<lparr>shape = s, vals = map2 f xs ys, ptype = p\<rparr>"
  using assms by (simp add: elementwise2_def)

lemma ptype_mul_dimensionless [simp]: "ptype_mul p dimensionless = p"
  by (cases p) (simp add: ptype_mul_def dimensionless_def)

lemma ptype_mul_dimensionless_left [simp]: "ptype_mul dimensionless p = p"
  by (cases p) (simp add: ptype_mul_def dimensionless_def)

lemma ptype_pow_sqrt_square [simp]: "ptype_pow (ptype_pow p 2) (1 / 2) = p"
  by (cases p) (simp add: ptype_pow_def)

lemma Cartesian_xyz_same:
  assumes "length xs = prod_list s" "length ys = prod_list s" "length zs = prod_list s"
  shows "Cartesian_xyz \<lparr>shape = s, vals = xs, ptype = p\<rparr> \<lparr>shape = s, vals = ys, ptype = p\<rparr>
           \<lparr>shape = s, vals = zs, ptype = p\<rparr>
         = Inr \<lparr>c_x = \<lparr>shape = s, vals = xs, ptype = p\<rparr>, c_y = \<lparr>shape = s, vals = ys, ptype = p\<rparr>,
                c_z = \<lparr>shape = s, vals = zs, ptype = p\<rparr>\<rparr>"
  using assms
  by (simp add: Cartesian_xyz_def Cartesian_init_Inr Cartesian_args_def Quantity_arg_def
      Quantity_of_def broadcast_as_def)




section \<open>Round trips through Cartesian coordinates, point by point\<close>


















section \<open>Round trips through Cartesian coordinates, array by array\<close>

lemma UnitSpherical_to_cartesian_same:
  assumes "length L = prod_list s" "length B = prod_list s"
  shows "UnitSpherical_to_cartesian
           \<lparr>u_lon = \<lparr>shape = s, vals = L, ptype = angle_type\<rparr>,
            u_lat = \<lparr>shape = s, vals = B, ptype = angle_type\<rparr>\<rparr>
         = Inr \<lparr>c_x = \<lparr>shape = s, vals = map2 (*) (map cos B) (map cos L), ptype = dimensionless\<rparr>,
                c_y = \<lparr>shape = s, vals = map2 (*) (map cos B) (map sin L), ptype = dimensionless\<rparr>,
                c_z = \<lparr>shape = s, vals = map sin B, ptype = dimensionless\<rparr>\<rparr>"
  using assms
  by (simp add: UnitSpherical_to_cartesian_def np_cos_def np_sin_def q_mul_def unit_mul_def
      elementwise2_same Cartesian_xyz_same)








section \<open>The shortcut between the two spherical representations\<close>







section \<open>The cylindrical representation\<close>




lemma Cylindrical_init_same:
  assumes "length R = prod_list s" "length P = prod_list s" "length Z = prod_list s"
  shows "CylindricalRepresentation_init (Qty \<lparr>shape = s, vals = R, ptype = p\<rparr>)
           (Qty \<lparr>shape = s, vals = P, ptype = angle_type\<rparr>) (Qty \<lparr>shape = s, vals = Z, ptype = p\<rparr>)
         = Inr \<lparr>cyl_rho = \<lparr>shape = s, vals = R, ptype = p\<rparr>,
                cyl_phi = \<lparr>shape = s, vals = P, ptype = angle_type\<rparr>,
                cyl_z = \<lparr>shape = s, vals = Z, ptype = p\<rparr>\<rparr>"
  using assms
  by (simp add: Cylindrical_init_Inr Angle_def Quantity_of_def broadcast_as_def)



text \<open>
  How far \<^verbatim>\<open>CylindricalRepresentation.from_cartesian\<close> goes. On a scalar the azimuth
  is \<open>0\<close> on the z-axis and \<open>arctan2 y x\<close> off it. On a one-dimensional array of two or
  more points the masked assignment of line 528 fails as soon as one point lies on the
  z-axis.
\<close>

lemma Cylindrical_from_cartesian_scalar:
  "Cylindrical_from_cartesian
     \<lparr>c_x = \<lparr>shape = [], vals = [x], ptype = p\<rparr>, c_y = \<lparr>shape = [], vals = [y], ptype = p\<rparr>,
      c_z = \<lparr>shape = [], vals = [z], ptype = p\<rparr>\<rparr>
   = Inr \<lparr>cyl_rho = \<lparr>shape = [], vals = [sqrt (x * x + y * y)], ptype = p\<rparr>,
          cyl_phi = \<lparr>shape = [],
                     vals = [if 0 < sqrt (x * x + y * y) then arctan2 y x else 0],
                     ptype = angle_type\<rparr>,
          cyl_z = \<lparr>shape = [], vals = [z], ptype = p\<rparr>\<rparr>"
  by (simp add: Cylindrical_from_cartesian_def q_square_def q_add_def q_sqrt_def
      np_arctan2_def elementwise2_def Let_def q_gt0_def setitem_mask_def np_zeros_def
      Cylindrical_init_same)

lemma Cylindrical_from_cartesian_axis_point:
  assumes len: "length X = n" "length Y = n" "length Z = n"
    and more: "1 < n"
    and axis: "i < n" "X ! i = 0" "Y ! i = 0"
  shows "Cylindrical_from_cartesian
           \<lparr>c_x = \<lparr>shape = [n], vals = X, ptype = p\<rparr>, c_y = \<lparr>shape = [n], vals = Y, ptype = p\<rparr>,
            c_z = \<lparr>shape = [n], vals = Z, ptype = p\<rparr>\<rparr>
         = Inl (ValueError ''boolean array indexing assignment cannot assign the input values to the output values where the mask is true'')"
proof -
  define rho where "rho = map sqrt (map2 (+) (map (\<lambda>v. v * v) X) (map (\<lambda>v. v * v) Y))"
  define bs where "bs = map (\<lambda>v. 0 < v) rho"
  define V where "V = map2 arctan2 Y X"
  have lrho: "length rho = n"
    using len by (simp add: rho_def)
  have lbs: "length bs = n"
    using lrho by (simp add: bs_def)
  have "rho ! i = 0"
    using len axis by (simp add: rho_def)
  then have "\<not> bs ! i"
    using lrho axis(1) by (simp add: bs_def)
  moreover have "bs ! i \<in> set bs"
    using lbs axis(1) by (intro nth_mem) simp
  ultimately have "False \<in> set bs"
    by simp
  then have "length (filter id bs) < length bs"
    by (intro length_filter_less [of False]) simp_all
  then have count: "n \<noteq> length (filter id bs)"
    using lbs by simp
  have xy: "q_add (q_square \<lparr>shape = [n], vals = X, ptype = p\<rparr>)
              (q_square \<lparr>shape = [n], vals = Y, ptype = p\<rparr>)
            = Inr \<lparr>shape = [n], vals = map2 (+) (map (\<lambda>v. v * v) X) (map (\<lambda>v. v * v) Y),
                   ptype = ptype_pow p 2\<rparr>"
    using len by (simp add: q_add_def q_square_def elementwise2_same del: zip_map_map map_map)
  have sq: "q_sqrt \<lparr>shape = [n], vals = map2 (+) (map (\<lambda>v. v * v) X) (map (\<lambda>v. v * v) Y),
                   ptype = ptype_pow p 2\<rparr> = \<lparr>shape = [n], vals = rho, ptype = p\<rparr>"
    by (simp add: q_sqrt_def rho_def del: zip_map_map map_map)
  have at: "np_arctan2 \<lparr>shape = [n], vals = Y, ptype = p\<rparr> \<lparr>shape = [n], vals = X, ptype = p\<rparr>
            = Inr \<lparr>shape = [n], vals = V, ptype = angle_type\<rparr>"
    using len by (simp add: np_arctan2_def elementwise2_same V_def)
  have gt: "q_gt0 \<lparr>shape = [n], vals = rho, ptype = p\<rparr> = ([n], bs)"
    by (simp add: q_gt0_def bs_def)
  have set: "setitem_mask (np_zeros [n] angle_type) ([n], bs)
               \<lparr>shape = [n], vals = V, ptype = angle_type\<rparr>
             = Inl (ValueError ''boolean array indexing assignment cannot assign the input values to the output values where the mask is true'')"
    using count more by (simp add: setitem_mask_def np_zeros_def)
  show ?thesis
    unfolding Cylindrical_from_cartesian_def
    by (simp only: cartesian.simps xy ebind_simps Let_def sq at gt quantity.simps set)
qed

section \<open>What broadcasting keeps\<close>

lemma fits_rev_refl [simp]: "fits_rev s s"
  by (induction s) simp_all

lemma fits_rev_trans: "fits_rev a b \<Longrightarrow> fits_rev b c \<Longrightarrow> fits_rev a c"
proof (induction a b arbitrary: c rule: fits_rev.induct)
  case (3 d ds e es)
  then show ?case by (cases c) auto
qed simp_all

lemma broadcast_rev_fits:
  "broadcast_rev xs ys = Some zs \<Longrightarrow> fits_rev xs zs \<and> fits_rev ys zs"
proof (induction xs ys arbitrary: zs rule: broadcast_rev.induct)
  case (3 x xs y ys)
  then show ?case
    by (auto simp: broadcast_dim_def split: option.splits if_splits)
qed auto

lemma broadcast_shapes2_fits:
  assumes "broadcast_shapes2 s t = Some u"
  shows "fits_rev (rev s) (rev u) \<and> fits_rev (rev t) (rev u)"
  using assms broadcast_rev_fits [of "rev s" "rev t"]
  by (auto simp: broadcast_shapes2_def)

lemma broadcast_shapes3_fits:
  assumes "broadcast_shapes [a, b, c] = Some t"
  shows "fits_rev (rev a) (rev t)" "fits_rev (rev b) (rev t)" "fits_rev (rev c) (rev t)"
proof -
  obtain t1 where t1: "broadcast_shapes2 c [] = Some t1"
    using assms by (auto split: option.splits)
  obtain t2 where t2: "broadcast_shapes2 b t1 = Some t2"
    using assms t1 by (auto split: option.splits)
  have t: "broadcast_shapes2 a t2 = Some t"
    using assms t1 t2 by simp
  show "fits_rev (rev a) (rev t)"
    using broadcast_shapes2_fits [OF t] by simp
  show "fits_rev (rev b) (rev t)"
    using broadcast_shapes2_fits [OF t] broadcast_shapes2_fits [OF t2] fits_rev_trans by blast
  show "fits_rev (rev c) (rev t)"
    using broadcast_shapes2_fits [OF t] broadcast_shapes2_fits [OF t2]
      broadcast_shapes2_fits [OF t1] fits_rev_trans by blast
qed

lemma broadcast_shapes2_list_fits:
  assumes "broadcast_shapes [a, b] = Some t"
  shows "fits_rev (rev a) (rev t)" "fits_rev (rev b) (rev t)"
proof -
  obtain t1 where t1: "broadcast_shapes2 b [] = Some t1"
    using assms by (auto split: option.splits)
  have t: "broadcast_shapes2 a t1 = Some t"
    using assms t1 by simp
  show "fits_rev (rev a) (rev t)"
    using broadcast_shapes2_fits [OF t] by simp
  show "fits_rev (rev b) (rev t)"
    using broadcast_shapes2_fits [OF t] broadcast_shapes2_fits [OF t1] fits_rev_trans by blast
qed

lemma fits_rev_nth:
  "fits_rev a b \<Longrightarrow> length a \<le> length b \<and> (\<forall>i < length a. a ! i = b ! i \<or> a ! i = 1)"
proof (induction a b rule: fits_rev.induct)
  case (3 d ds e es)
  then show ?case by (auto simp: nth_Cons split: nat.splits)
qed simp_all

lemma fits_axes:
  assumes "fits_rev (rev s) (rev t)"
  shows "length s \<le> length t"
    and "j < length s \<Longrightarrow> s ! j = t ! (length t - length s + j) \<or> s ! j = 1"
proof -
  from fits_rev_nth [OF assms]
  have len: "length s \<le> length t"
    and ax: "\<And>i. i < length s \<Longrightarrow> rev s ! i = rev t ! i \<or> rev s ! i = 1"
    by simp_all
  show "length s \<le> length t" by (rule len)
  assume j: "j < length s"
  define i where "i = length s - Suc j"
  have i: "i < length s" using j by (simp add: i_def)
  have "rev s ! i = s ! j"
    using j by (simp add: rev_nth i_def)
  moreover have "rev t ! i = t ! (length t - length s + j)"
  proof -
    have "i < length t" using i len by simp
    moreover have "length t - Suc i = length t - length s + j"
      using j len by (simp add: i_def)
    ultimately show ?thesis by (simp add: rev_nth)
  qed
  ultimately show "s ! j = t ! (length t - length s + j) \<or> s ! j = 1"
    using ax [OF i] by simp
qed

lemma unravel_bound:
  "k < prod_list t \<Longrightarrow> j < length t \<Longrightarrow> unravel t k ! j < t ! j"
proof (induction t arbitrary: k j)
  case Nil
  then show ?case by simp
next
  case (Cons d ds)
  have pos: "0 < d" "0 < prod_list ds"
    using Cons.prems(1) by (cases "d = 0"; cases "prod_list ds = 0"; simp)+
  show ?case
  proof (cases j)
    case 0
    then show ?thesis using pos by simp
  next
    case (Suc j')
    then show ?thesis
      using Cons.IH [of "k mod prod_list ds" j'] Cons.prems(2) pos by simp
  qed
qed

lemma ravel_bound:
  "length is = length s \<Longrightarrow> (\<forall>j < length s. is ! j < s ! j) \<Longrightarrow> ravel s is < prod_list s"
proof (induction s "is" rule: ravel.induct)
  case (1 d ds i "is")
  have i: "i < d" using "1.prems"(2) by auto
  have "\<forall>j < length ds. is ! j < ds ! j"
    using "1.prems"(2) by auto
  then have r: "ravel ds is < prod_list ds"
    using "1.IH" "1.prems"(1) by simp
  have "i * prod_list ds + ravel ds is < i * prod_list ds + prod_list ds"
    using r by simp
  also have "\<dots> = Suc i * prod_list ds" by simp
  also have "\<dots> \<le> d * prod_list ds"
    using i by (intro mult_le_mono1) simp
  finally show ?case by simp
qed simp_all

lemma broadcast_to_subset:
  assumes fits: "fits_rev (rev s) (rev t)" and len: "length xs = prod_list s"
  shows "set (broadcast_to t s xs) \<subseteq> set xs"
proof -
  have "ravel s (map2 (\<lambda>d i. if d = 1 then 0 else i) s
                   (drop (length t - length s) (unravel t k))) < prod_list s"
    if k: "k < prod_list t" for k
  proof (rule ravel_bound)
    show "length (map2 (\<lambda>d i. if d = 1 then 0 else i) s
                    (drop (length t - length s) (unravel t k))) = length s"
      using fits_axes(1) [OF fits] by simp
    show "\<forall>j < length s. map2 (\<lambda>d i. if d = 1 then 0 else i) s
             (drop (length t - length s) (unravel t k)) ! j < s ! j"
    proof (intro allI impI)
      fix j assume j: "j < length s"
      have "unravel t k ! (length t - length s + j) < t ! (length t - length s + j)"
        by (rule unravel_bound [OF k]) (use j fits_axes(1) [OF fits] in simp)
      then show "map2 (\<lambda>d i. if d = 1 then 0 else i) s
             (drop (length t - length s) (unravel t k)) ! j < s ! j"
        using j fits_axes(1) [OF fits] fits_axes(2) [OF fits j] by auto
    qed
  qed
  then show ?thesis
    using len by (auto simp: broadcast_to_def)
qed

lemma list_all_broadcast_as:
  assumes "fits_rev (rev (shape q)) (rev t)" "length (vals q) = prod_list (shape q)"
    "list_all P (vals q)"
  shows "list_all P (vals (broadcast_as t q))"
  using broadcast_to_subset [OF assms(1,2)] assms(3)
  by (auto simp: broadcast_as_def list_all_iff)

lemma array_at_broadcast_as [simp]: "array_at t (broadcast_as t q)"
  by (simp add: array_at_def broadcast_as_def broadcast_to_def)

section \<open>The constructors build instances\<close>

text \<open>
  Whatever a constructor returns, given arrays that hold as many numbers as their shapes
  say, satisfies the instance predicate of its variant: the results below are stated for
  instances, and so hold for every constructed representation.
\<close>

lemma Angle_props:
  assumes "Angle c = Inr q" "wf_component c"
  shows "ptype q = angle_type" "length (vals q) = prod_list (shape q)"
  using assms
  by (auto simp: Angle_def wf_component_def comp_vals_def comp_shape_def
      split: component.splits if_splits)

lemma Longitude_props:
  assumes "Longitude c = Inr q" "wf_component c"
  shows "ptype q = angle_type" "length (vals q) = prod_list (shape q)"
    "list_all (\<lambda>v. 0 \<le> v \<and> v < 2 * pi) (vals q)"
  using assms Angle_props [of c]
  by (auto simp: Longitude_def ebind_eq_Inr list_all_iff wrap_angle_range)

lemma Latitude_props:
  assumes "Latitude c = Inr q" "wf_component c"
  shows "ptype q = angle_type" "length (vals q) = prod_list (shape q)"
    "list_all (\<lambda>v. - (pi / 2) \<le> v \<and> v \<le> pi / 2) (vals q)"
  using assms Angle_props [of c]
  by (auto simp: Latitude_def ebind_eq_Inr split: if_splits)

lemma Quantity_of_props:
  assumes "Quantity_of c unit = Inr q" "wf_component c"
  shows "length (vals q) = prod_list (shape q)"
  using assms
  by (auto simp: Quantity_of_def wf_component_def comp_vals_def comp_shape_def
      split: component.splits option.splits if_splits)

lemma distance_arg_props:
  assumes "distance_arg c = Inr q" "wf_component c"
  shows "length (vals q) = prod_list (shape q)"
  using assms
  by (auto simp: distance_arg_def Distance_def Quantity_of_def wf_component_def comp_vals_def
      comp_shape_def split: component.splits if_splits)

lemma Spherical_init_instance:
  assumes init: "SphericalRepresentation_init lon lat d = Inr r"
    and wf: "wf_component lon" "wf_component lat" "wf_component d"
  shows "Spherical_instance r"
proof -
  from init obtain a b c s where parts: "Longitude lon = Inr a" "Latitude lat = Inr b"
      "distance_arg d = Inr c" "broadcast_shapes [shape a, shape b, shape c] = Some s"
    and r: "r = \<lparr>s_lon = broadcast_as s a, s_lat = broadcast_as s b,
                 s_distance = broadcast_as s c\<rparr>"
    unfolding Spherical_init_Inr by blast
  note fits = broadcast_shapes3_fits [OF parts(4)]
  show ?thesis
    unfolding Spherical_instance_def all_vals_def r
    using Longitude_props [OF parts(1) wf(1)] Latitude_props [OF parts(2) wf(2)] fits
    by (simp add: list_all_broadcast_as)
qed

lemma UnitSpherical_init_instance:
  assumes init: "UnitSphericalRepresentation_init lon lat = Inr r"
    and wf: "wf_component lon" "wf_component lat"
  shows "UnitSpherical_instance r"
proof -
  from init obtain a b s where parts: "Longitude lon = Inr a" "Latitude lat = Inr b"
      "broadcast_shapes [shape a, shape b] = Some s"
    and r: "r = \<lparr>u_lon = broadcast_as s a, u_lat = broadcast_as s b\<rparr>"
    unfolding UnitSpherical_init_Inr by blast
  note fits = broadcast_shapes2_list_fits [OF parts(3)]
  show ?thesis
    unfolding UnitSpherical_instance_def all_vals_def r
    using Longitude_props [OF parts(1) wf(1)] Latitude_props [OF parts(2) wf(2)] fits
    by (simp add: list_all_broadcast_as)
qed

lemma PhysicsSpherical_init_instance:
  assumes init: "PhysicsSphericalRepresentation_init phi theta d = Inr r"
    and wf: "wf_component phi" "wf_component theta"
  shows "PhysicsSpherical_instance r"
proof -
  from init obtain a b c s where parts: "Angle phi = Inr a" "Angle theta = Inr b"
    and r: "r = \<lparr>p_phi = broadcast_as s a, p_theta = broadcast_as s b,
                 p_distance = broadcast_as s c\<rparr>"
    unfolding PhysicsSpherical_init_Inr by blast
  show ?thesis
    unfolding PhysicsSpherical_instance_def r
    using Angle_props(1) [OF parts(1) wf(1)] Angle_props(1) [OF parts(2) wf(2)]
    by simp
qed

lemma Cylindrical_init_instance:
  assumes init: "CylindricalRepresentation_init rho phi z = Inr r"
    and wf: "wf_component phi"
  shows "Cylindrical_instance r"
proof -
  from init obtain a b c s where parts: "Angle phi = Inr b" "ptype a = ptype c"
    and r: "r = \<lparr>cyl_rho = broadcast_as s a, cyl_phi = broadcast_as s b,
                 cyl_z = broadcast_as s c\<rparr>"
    unfolding Cylindrical_init_Inr by blast
  show ?thesis
    unfolding Cylindrical_instance_def r
    using Angle_props(1) [OF parts(1) wf] parts(2)
    by simp
qed

section \<open>Round trips and the shortcut, for instances\<close>
























section \<open>The default path of \<^verbatim>\<open>represent_as\<close>\<close>

text \<open>
  C7. \<^verbatim>\<open>represent_as\<close> with the instance's own class returns the instance, for every
  variant. For any other class, \<^verbatim>\<open>represent_as\<close> of an instance is \<^verbatim>\<open>to_cartesian\<close>
  followed by the target's \<^verbatim>\<open>from_cartesian\<close>, an error of \<^verbatim>\<open>to_cartesian\<close> being
  passed on; the only calls that leave this path are the two that the overriding
  methods of the spherical classes answer themselves (lines 221 and 413). The method of
  \<^verbatim>\<open>BaseRepresentation\<close>, which those two fall back to, is this path for every instance.
\<close>

theorem represent_as_default_path:
  "(other_class = class_of r \<longrightarrow> represent_as r other_class = Inr r) \<and>
   (other_class \<noteq> class_of r \<and>
    \<not> (class_of r = SphericalRepresentation \<and> other_class = PhysicsSphericalRepresentation) \<and>
    \<not> (class_of r = PhysicsSphericalRepresentation \<and> other_class = SphericalRepresentation) \<longrightarrow>
      represent_as r other_class =
        (case to_cartesian r of Inl e \<Rightarrow> Inl e | Inr c \<Rightarrow> from_cartesian other_class c)) \<and>
   (other_class \<noteq> class_of r \<longrightarrow>
      BaseRepresentation_represent_as r other_class =
        (case to_cartesian r of Inl e \<Rightarrow> Inl e | Inr c \<Rightarrow> from_cartesian other_class c))"
  by (cases r)
     (simp_all add: represent_as_def Spherical_represent_as_def PhysicsSpherical_represent_as_def
        BaseRepresentation_represent_as_def class_of_def ebind_def)

lemma example_usph_to_cartesian:
  "to_cartesian (UnitSpherical example_usph)
     = Inr \<lparr>c_x = \<lparr>shape = [], vals = [1], ptype = dimensionless\<rparr>,
            c_y = \<lparr>shape = [], vals = [0], ptype = dimensionless\<rparr>,
            c_z = \<lparr>shape = [], vals = [0], ptype = dimensionless\<rparr>\<rparr>"
  by (simp add: to_cartesian_def example_usph_def example_angle_def
      UnitSpherical_to_cartesian_same)

theorem represent_as_default_path_witness:
  "represent_as (Cartesian example_cart) CartesianRepresentation = Inr (Cartesian example_cart) \<and>
   represent_as (UnitSpherical example_usph) CartesianRepresentation
     = Inr (Cartesian
         \<lparr>c_x = \<lparr>shape = [], vals = [1], ptype = dimensionless\<rparr>,
          c_y = \<lparr>shape = [], vals = [0], ptype = dimensionless\<rparr>,
          c_z = \<lparr>shape = [], vals = [0], ptype = dimensionless\<rparr>\<rparr>) \<and>
   BaseRepresentation_represent_as (Spherical example_sph) CartesianRepresentation
     = represent_as (Spherical example_sph) CartesianRepresentation"
  using represent_as_default_path [of CartesianRepresentation "Cartesian example_cart"]
    represent_as_default_path [of CartesianRepresentation "UnitSpherical example_usph"]
    represent_as_default_path [of CartesianRepresentation "Spherical example_sph"]
  by (simp add: class_of_def example_usph_to_cartesian from_cartesian_def)

end
